theory Spec2Isabelle
  imports Complex_Main "HOL-Library.Sublist"
begin

section \<open>Probe-and-diff engine of flight-booking-automation\<close>

text \<open>
  A shallow embedding of \<^verbatim>\<open>src/utils/constants.ts\<close> (the part that holds
  \<^verbatim>\<open>validateElement\<close> and its helpers). Pure functions of the source are HOL
  functions; the asynchronous functions that talk to the browser are state-passing
  programs over an abstract page world, with every thrown exception a value.

  JavaScript values are read as follows: a \<^verbatim>\<open>number\<close> that counts or scores is an
  \<^typ>\<open>int\<close> or \<^typ>\<open>nat\<close>; a coordinate of a bounding box is a finite double, read as a
  \<^typ>\<open>real\<close>; a \<^verbatim>\<open>string | null\<close> is a \<^typ>\<open>string option\<close>; an array is a list.
\<close>

subsection \<open>Exceptions\<close>

text \<open>A thrown \<^verbatim>\<open>Error\<close>; the source only ever reads its \<^verbatim>\<open>message\<close>.\<close>

datatype exn = Error (message: string)

subsection \<open>Neighbourhood snapshots (the value returned by captureNearbyElements)\<close>

record element_position =
  ep_top :: real
  ep_left :: real
  ep_bottom :: real
  ep_right :: real

record sibling =
  sb_tagName :: string
  sb_className :: string
  sb_id :: string
  sb_isVisible :: bool
  sb_hasAriaExpanded :: bool
  sb_ariaExpanded :: "string option"

record position =
  pos_top :: real
  pos_left :: real
  pos_width :: real
  pos_height :: real

record nearby_element =
  nb_tagName :: string
  nb_className :: string
  nb_id :: string
  nb_isVisible :: bool
  nb_position :: position

record dom_state =
  elementPosition :: element_position
  parentTagName :: "string option"
  siblings :: "sibling list"
  nearbyElements :: "nearby_element list"

subsection \<open>The diff report (analyzeDomChanges)\<close>

record visibility_change =
  vc_element :: sibling
  wasVisible :: bool
  nowVisible :: bool

record expansion_change =
  xc_element :: sibling
  wasExpanded :: "string option"
  nowExpanded :: "string option"

record dom_changes =
  newElements :: "nearby_element list"
  changedVisibility :: "visibility_change list"
  expandedElements :: "expansion_change list"
  interactionType :: string
  description :: string

text \<open>\<^verbatim>\<open>String.prototype.includes\<close>: the pattern occurs as a contiguous run.\<close>

fun str_includes :: "string \<Rightarrow> string \<Rightarrow> bool" where
  "str_includes [] pat = (pat = [])"
| "str_includes (c # cs) pat = (prefix pat (c # cs) \<or> str_includes cs pat)"

text \<open>Decimal rendering of a length inside a template string.\<close>

definition string_of_digit :: "nat \<Rightarrow> char" where
  "string_of_digit n = ''0123456789'' ! (n mod 10)"

fun string_of_nat :: "nat \<Rightarrow> string" where
  "string_of_nat n =
     (if n < 10 then [string_of_digit n]
      else string_of_nat (n div 10) @ [string_of_digit (n mod 10)])"

declare string_of_nat.simps [simp del]

text \<open>\<^verbatim>\<open>xs[index]\<close>: \<^verbatim>\<open>undefined\<close> outside the array.\<close>

definition index_at :: "'a list \<Rightarrow> nat \<Rightarrow> 'a option" where
  "index_at xs i = (if i < length xs then Some (xs ! i) else None)"

text \<open>
  The callback of the first \<^verbatim>\<open>forEach\<close>: a visible element of the final state that no
  visible element of the initial state matches is pushed onto \<^verbatim>\<open>changes.newElements\<close>.
\<close>

definition same_element :: "nearby_element \<Rightarrow> nearby_element \<Rightarrow> bool" where
  "same_element finalEl initialEl \<longleftrightarrow>
     nb_className initialEl = nb_className finalEl \<and>
     nb_tagName initialEl = nb_tagName finalEl \<and>
     \<bar>pos_top (nb_position initialEl) - pos_top (nb_position finalEl)\<bar> < 50"

definition note_new_element ::
  "nearby_element list \<Rightarrow> dom_changes \<Rightarrow> nearby_element \<Rightarrow> dom_changes" where
  "note_new_element initialVisibleElements changes finalEl =
     (let wasVisible = list_ex (same_element finalEl) initialVisibleElements
      in if \<not> wasVisible
         then changes\<lparr>newElements := newElements changes @ [finalEl]\<rparr>
         else changes)"

text \<open>
  The callback of the second \<^verbatim>\<open>forEach\<close>, called with each final sibling and its index.
\<close>

definition note_sibling :: "dom_state \<Rightarrow> dom_changes \<Rightarrow> nat \<times> sibling \<Rightarrow> dom_changes" where
  "note_sibling initialState changes p =
     (case p of (index, finalSibling) \<Rightarrow>
        (let initialSibling = index_at (siblings initialState) index;
             changes1 =
               (case initialSibling of
                  None \<Rightarrow> changes
                | Some i \<Rightarrow>
                    if sb_isVisible i \<noteq> sb_isVisible finalSibling
                    then changes\<lparr>changedVisibility := changedVisibility changes @
                           [\<lparr>vc_element = finalSibling, wasVisible = sb_isVisible i,
                             nowVisible = sb_isVisible finalSibling\<rparr>]\<rparr>
                    else changes)
         in (case initialSibling of
               None \<Rightarrow> changes1
             | Some i \<Rightarrow>
                 if sb_ariaExpanded i \<noteq> sb_ariaExpanded finalSibling
                 then changes1\<lparr>expandedElements := expandedElements changes1 @
                        [\<lparr>xc_element = finalSibling, wasExpanded = sb_ariaExpanded i,
                          nowExpanded = sb_ariaExpanded finalSibling\<rparr>]\<rparr>
                 else changes1)))"

text \<open>The closing \<^verbatim>\<open>if / else if\<close> chain that names the interaction type.\<close>

definition classify :: "dom_changes \<Rightarrow> dom_changes" where
  "classify changes =
     (case newElements changes of
        newElement # _ \<Rightarrow>
          if nb_tagName newElement = ''UL'' \<or> str_includes (nb_className newElement) ''dropdown''
             \<or> str_includes (nb_className newElement) ''menu''
          then changes\<lparr>interactionType := ''dropdown'',
                 description := ''Opened dropdown with '' @
                   string_of_nat (length (newElements changes)) @ '' new elements''\<rparr>
          else if str_includes (nb_className newElement) ''modal''
                  \<or> str_includes (nb_className newElement) ''dialog''
          then changes\<lparr>interactionType := ''modal'', description := ''Opened modal dialog''\<rparr>
          else if nb_tagName newElement = ''INPUT'' \<or> str_includes (nb_className newElement) ''input''
          then changes\<lparr>interactionType := ''input_expansion'',
                 description := ''Expanded input field''\<rparr>
          else changes\<lparr>interactionType := ''content_expansion'',
                 description := ''Revealed additional content''\<rparr>
      | [] \<Rightarrow>
          if length (changedVisibility changes) > 0
          then changes\<lparr>interactionType := ''visibility_toggle'',
                 description := ''Toggled visibility of '' @
                   string_of_nat (length (changedVisibility changes)) @ '' elements''\<rparr>
          else if length (expandedElements changes) > 0
          then changes\<lparr>interactionType := ''aria_expansion'',
                 description := ''Changed aria-expanded state''\<rparr>
          else changes)"

definition analyzeDomChanges :: "dom_state \<Rightarrow> dom_state \<Rightarrow> dom_changes" where
  "analyzeDomChanges initialState finalState =
     (let changes = \<lparr>newElements = [], changedVisibility = [], expandedElements = [],
                     interactionType = ''none'', description = ''''\<rparr>;
          initialVisibleElements = filter nb_isVisible (nearbyElements initialState);
          finalVisibleElements = filter nb_isVisible (nearbyElements finalState);
          changes = foldl (note_new_element initialVisibleElements) changes finalVisibleElements;
          changes = foldl (note_sibling initialState) changes
                      (enumerate 0 (siblings finalState))
      in classify changes)"

subsection \<open>The score (calculateAccessibilityScore)\<close>

record state_change =
  focusChanged :: bool
  ariaExpandedChanged :: bool
  ariaPressedChanged :: bool
  ariaSelectedChanged :: bool

text \<open>\<^verbatim>\<open>stateChange?.flag\<close> used as a condition: false when \<^verbatim>\<open>stateChange\<close> is null.\<close>

definition flag_of :: "(state_change \<Rightarrow> bool) \<Rightarrow> state_change option \<Rightarrow> bool" where
  "flag_of flag stateChange = (case stateChange of None \<Rightarrow> False | Some sc \<Rightarrow> flag sc)"

text \<open>
  With \<^verbatim>\<open>domChanges\<close> null, \<^verbatim>\<open>domChanges?.interactionType\<close> is \<^verbatim>\<open>undefined\<close>, which differs
  from \<^verbatim>\<open>'none'\<close>; the read of \<^verbatim>\<open>domChanges.expandedElements\<close> that follows throws a
  TypeError.
\<close>

definition calculateAccessibilityScore ::
  "state_change option \<Rightarrow> bool \<Rightarrow> dom_changes option \<Rightarrow> exn + int" where
  "calculateAccessibilityScore stateChange success domChanges =
     (if \<not> success then Inr 0
      else
        let score = 50;
            score = (if flag_of focusChanged stateChange then score + 20 else score);
            score = (if flag_of ariaExpandedChanged stateChange then score + 15 else score);
            score = (if flag_of ariaPressedChanged stateChange then score + 10 else score);
            score = (if flag_of ariaSelectedChanged stateChange then score + 5 else score)
        in if map_option interactionType domChanges \<noteq> Some ''none''
           then (case domChanges of
                   None \<Rightarrow> Inl (Error ''Cannot read properties of null'')
                 | Some dc \<Rightarrow>
                     let score = score + 10;
                         score = (if length (expandedElements dc) > 0 then score + 5 else score)
                     in Inr (min score 100))
           else Inr (min score 100))"

subsection \<open>The page seen from inside the browser\<close>

text \<open>
  The callbacks handed to \<^verbatim>\<open>evaluate\<close> run inside the page, against the DOM as it is at
  that moment. The DOM interface belongs to the browser, so a \<open>document\<close> carries the reads
  the callbacks make; a \<open>node\<close> is the identity of an element, compared by \<^verbatim>\<open>===\<close>.
\<close>

type_synonym node = nat

record dom_rect =
  rect_top :: real
  rect_left :: real
  rect_bottom :: real
  rect_right :: real
  rect_width :: real
  rect_height :: real

record document =
  querySelectorAll :: "string \<Rightarrow> node list"
  activeElement :: "node option"
  getBoundingClientRect :: "node \<Rightarrow> dom_rect"
  parentElement :: "node \<Rightarrow> node option"
  children :: "node \<Rightarrow> node list"
  contains :: "node \<Rightarrow> node \<Rightarrow> bool"
  tagName :: "node \<Rightarrow> string"
  className :: "node \<Rightarrow> string"
  elem_id :: "node \<Rightarrow> string"
  offsetParent :: "node \<Rightarrow> node option"
  attributes :: "node \<Rightarrow> (string \<times> string) list"
  tabIndex :: "node \<Rightarrow> int"
  innerText :: "node \<Rightarrow> string option"

definition getAttribute :: "document \<Rightarrow> node \<Rightarrow> string \<Rightarrow> string option" where
  "getAttribute doc el name = map_of (attributes doc el) name"

definition hasAttribute :: "document \<Rightarrow> node \<Rightarrow> string \<Rightarrow> bool" where
  "hasAttribute doc el name \<longleftrightarrow> map_of (attributes doc el) name \<noteq> None"

subsection \<open>The callback of captureNearbyElements\<close>

definition is_nearby_candidate :: "document \<Rightarrow> node \<Rightarrow> node \<Rightarrow> bool" where
  "is_nearby_candidate doc el candidate =
     (if candidate = el \<or> contains doc el candidate \<or> contains doc candidate el then False
      else
        let rect = getBoundingClientRect doc el;
            candidateRect = getBoundingClientRect doc candidate;
            isNearby = (\<bar>rect_top candidateRect - rect_bottom rect\<bar> < 200 \<and>
                        \<bar>rect_left candidateRect - rect_left rect\<bar> < 200)
        in isNearby \<and> rect_width candidateRect > 50 \<and> rect_height candidateRect > 20)"

definition describe_sibling :: "document \<Rightarrow> node \<Rightarrow> sibling" where
  "describe_sibling doc sibling =
     \<lparr>sb_tagName = tagName doc sibling,
      sb_className = className doc sibling,
      sb_id = elem_id doc sibling,
      sb_isVisible = (offsetParent doc sibling \<noteq> None),
      sb_hasAriaExpanded = hasAttribute doc sibling ''aria-expanded'',
      sb_ariaExpanded = getAttribute doc sibling ''aria-expanded''\<rparr>"

definition describe_nearby :: "document \<Rightarrow> node \<Rightarrow> nearby_element" where
  "describe_nearby doc nearby =
     \<lparr>nb_tagName = tagName doc nearby,
      nb_className = className doc nearby,
      nb_id = elem_id doc nearby,
      nb_isVisible = (offsetParent doc nearby \<noteq> None),
      nb_position =
        \<lparr>pos_top = rect_top (getBoundingClientRect doc nearby),
         pos_left = rect_left (getBoundingClientRect doc nearby),
         pos_width = rect_width (getBoundingClientRect doc nearby),
         pos_height = rect_height (getBoundingClientRect doc nearby)\<rparr>\<rparr>"

definition snapshot_around :: "document \<Rightarrow> node \<Rightarrow> dom_state" where
  "snapshot_around doc el =
     (let rect = getBoundingClientRect doc el;
          parent = parentElement doc el;
          nearbyElements =
            filter (is_nearby_candidate doc el) (querySelectorAll doc ''div, ul, section'')
      in \<lparr>elementPosition =
             \<lparr>ep_top = rect_top rect, ep_left = rect_left rect,
              ep_bottom = rect_bottom rect, ep_right = rect_right rect\<rparr>,
           parentTagName =
             (case parent of
                None \<Rightarrow> None
              | Some p \<Rightarrow> if tagName doc p = [] then None else Some (tagName doc p)),
           siblings =
             map (describe_sibling doc) (case parent of None \<Rightarrow> [] | Some p \<Rightarrow> children doc p),
           nearbyElements = map (describe_nearby doc) nearbyElements\<rparr>)"

subsection \<open>The callbacks of analyzeAccessibility\<close>

definition is_focusable :: "document \<Rightarrow> node \<Rightarrow> bool" where
  "is_focusable doc el \<longleftrightarrow>
     tabIndex doc el \<ge> 0 \<or>
     tagName doc el \<in> set [''INPUT'', ''BUTTON'', ''SELECT'', ''TEXTAREA'', ''A''] \<or>
     hasAttribute doc el ''tabindex''"

definition aria_attributes :: "document \<Rightarrow> node \<Rightarrow> (string \<rightharpoonup> string)" where
  "aria_attributes doc el =
     foldl (\<lambda>aria attr.
              if prefix ''aria-'' (fst attr) \<or> fst attr = ''role''
              then aria(fst attr \<mapsto> snd attr) else aria)
       Map.empty (attributes doc el)"

text \<open>
  \<^verbatim>\<open>a || b\<close> on values that are a string, null or undefined: \<^verbatim>\<open>a\<close> when it is a non-empty
  string, else \<^verbatim>\<open>b\<close>.
\<close>

definition or_else :: "string option \<Rightarrow> string option \<Rightarrow> string option" where
  "or_else a b = (case a of None \<Rightarrow> b | Some s \<Rightarrow> if s = [] then b else Some s)"

text \<open>
  \<^verbatim>\<open>String.prototype.trim\<close> on strings of code units below 256: white space and line
  terminators there are TAB, LF, VT, FF, CR, SPACE and NBSP.
\<close>

definition is_white_space :: "char \<Rightarrow> bool" where
  "is_white_space c \<longleftrightarrow>
     c \<in> set [CHR 0x09, CHR 0x0A, CHR 0x0B, CHR 0x0C, CHR 0x0D, CHR 0x20, CHR 0xA0]"

definition trim :: "string \<Rightarrow> string" where
  "trim s = rev (dropWhile is_white_space (rev (dropWhile is_white_space s)))"

definition accessible_name :: "document \<Rightarrow> node \<Rightarrow> string option" where
  "accessible_name doc el =
     or_else (getAttribute doc el ''aria-label'')
       (or_else (getAttribute doc el ''aria-labelledby'')
          (or_else (getAttribute doc el ''alt'')
             (or_else (getAttribute doc el ''title'')
                (or_else (map_option trim (innerText doc el)) None))))"

definition has_valid_semantics :: "document \<Rightarrow> node \<Rightarrow> bool" where
  "has_valid_semantics doc el =
     (let interactiveElements = [''BUTTON'', ''A'', ''INPUT'', ''SELECT'', ''TEXTAREA''];
          hasRole = hasAttribute doc el ''role'';
          isSemanticElement = (tagName doc el \<in> set interactiveElements)
      in isSemanticElement \<or> hasRole)"

subsection \<open>The automation interface and the asynchronous functions\<close>

text \<open>
  The page object and the element handles come from the browser-automation library. Each
  call is an \<^verbatim>\<open>await\<close>: it may throw, and the page may have moved on when it returns, so
  a call maps the world before to a result and the world after. \<open>evaluate\<close> gives the
  document a callback runs against; \<^verbatim>\<open>page.evaluate(f, element)\<close> and
  \<^verbatim>\<open>element.evaluate(f)\<close> are both \<open>run_in_page\<close>. \<open>date_now\<close> is \<^verbatim>\<open>Date.now()\<close> and
  \<open>console_log\<close> is \<^verbatim>\<open>console.log\<close>, with each of the four messages a constructor.
\<close>

datatype log_line =
  ContainerFound string | ChildFound string | ChildNotFound string | ContainerNotFound string

record 'w page =
  query :: "string \<Rightarrow> 'w \<Rightarrow> (exn + node option) \<times> 'w"
  query_within :: "node \<Rightarrow> string \<Rightarrow> 'w \<Rightarrow> (exn + node option) \<times> 'w"
  evaluate :: "node \<Rightarrow> 'w \<Rightarrow> (exn + document) \<times> 'w"
  isVisible :: "node \<Rightarrow> 'w \<Rightarrow> (exn + bool) \<times> 'w"
  click :: "node \<Rightarrow> 'w \<Rightarrow> (exn + unit) \<times> 'w"
  focus :: "node \<Rightarrow> 'w \<Rightarrow> (exn + unit) \<times> 'w"
  hover :: "node \<Rightarrow> 'w \<Rightarrow> (exn + unit) \<times> 'w"
  press :: "node \<Rightarrow> string \<Rightarrow> 'w \<Rightarrow> (exn + unit) \<times> 'w"
  waitForTimeout :: "nat \<Rightarrow> 'w \<Rightarrow> (exn + unit) \<times> 'w"
  date_now :: "'w \<Rightarrow> int"
  console_log :: "log_line \<Rightarrow> 'w \<Rightarrow> 'w"

type_synonym ('w, 'a) prog = "'w \<Rightarrow> (exn + 'a) \<times> 'w"

definition return_val :: "'a \<Rightarrow> ('w, 'a) prog" where
  "return_val x = (\<lambda>w. (Inr x, w))"

definition await :: "('w, 'a) prog \<Rightarrow> ('a \<Rightarrow> ('w, 'b) prog) \<Rightarrow> ('w, 'b) prog" where
  "await m k = (\<lambda>w. case m w of (Inl e, w') \<Rightarrow> (Inl e, w') | (Inr x, w') \<Rightarrow> k x w')"

definition run_in_page :: "'w page \<Rightarrow> node \<Rightarrow> (document \<Rightarrow> node \<Rightarrow> 'a) \<Rightarrow> ('w, 'a) prog" where
  "run_in_page pg el f = await (evaluate pg el) (\<lambda>doc. return_val (f doc el))"

text \<open>\<^verbatim>\<open>if (description) console.log(...)\<close>: nothing is printed for a missing or empty one.\<close>

definition logged :: "'w page \<Rightarrow> string option \<Rightarrow> (string \<Rightarrow> log_line) \<Rightarrow> 'w \<Rightarrow> 'w" where
  "logged pg desc line w =
     (case desc of
        None \<Rightarrow> w
      | Some d \<Rightarrow> if d = [] then w else console_log pg (line d) w)"

definition log_described :: "'w page \<Rightarrow> string option \<Rightarrow> (string \<Rightarrow> log_line) \<Rightarrow> ('w, unit) prog" where
  "log_described pg desc line = (\<lambda>w. (Inr (), logged pg desc line w))"

definition captureNearbyElements :: "'w page \<Rightarrow> node \<Rightarrow> ('w, dom_state) prog" where
  "captureNearbyElements pg element = run_in_page pg element snapshot_around"

record accessibility_details =
  ad_tagName :: string
  ad_isVisible :: bool
  isFocusable :: bool
  ariaAttributes :: "string \<rightharpoonup> string"
  accessibleName :: "string option"
  hasValidSemantics :: bool

definition analyzeAccessibility :: "'w page \<Rightarrow> node \<Rightarrow> ('w, accessibility_details) prog" where
  "analyzeAccessibility pg element =
     await (run_in_page pg element tagName) (\<lambda>tag.
     await (isVisible pg element) (\<lambda>visible.
     await (run_in_page pg element is_focusable) (\<lambda>focusable.
     await (run_in_page pg element aria_attributes) (\<lambda>aria.
     await (run_in_page pg element accessible_name) (\<lambda>name.
     await (run_in_page pg element has_valid_semantics) (\<lambda>semantics.
     return_val
       \<lparr>ad_tagName = tag, ad_isVisible = visible, isFocusable = focusable,
        ariaAttributes = aria, accessibleName = name, hasValidSemantics = semantics\<rparr>))))))"

subsection \<open>testInteractionWithDomAnalysis\<close>

datatype interaction_type = Click | Focus | Hover | Keydown

record interaction_test =
  it_type :: interaction_type
  it_key :: "string option"
  expectStateChange :: "bool option"

record element_state =
  focused :: bool
  st_ariaExpanded :: "string option"
  st_ariaPressed :: "string option"
  st_ariaSelected :: "string option"

record interaction_result =
  ir_type :: interaction_type
  success :: bool
  error :: "string option"
  interactionTime :: int
  stateChange :: "state_change option"
  accessibilityScore :: int

record interaction_data =
  interactionResult :: interaction_result
  domChanges :: "dom_changes option"

text \<open>The callback of both state reads.\<close>

definition read_state :: "document \<Rightarrow> node \<Rightarrow> element_state" where
  "read_state doc el =
     \<lparr>focused = (activeElement doc = Some el),
      st_ariaExpanded = getAttribute doc el ''aria-expanded'',
      st_ariaPressed = getAttribute doc el ''aria-pressed'',
      st_ariaSelected = getAttribute doc el ''aria-selected''\<rparr>"

text \<open>The \<^verbatim>\<open>switch (interaction.type)\<close>.\<close>

definition dispatch :: "'w page \<Rightarrow> node \<Rightarrow> interaction_test \<Rightarrow> ('w, unit) prog" where
  "dispatch pg element interaction =
     (case it_type interaction of
        Click \<Rightarrow> click pg element
      | Focus \<Rightarrow> focus pg element
      | Hover \<Rightarrow> hover pg element
      | Keydown \<Rightarrow>
          await (focus pg element) (\<lambda>_.
            case it_key interaction of
              None \<Rightarrow> return_val ()
            | Some k \<Rightarrow> if k = [] then return_val () else press pg element k))"

text \<open>
  The body of the \<^verbatim>\<open>try\<close> block. Its last three assignments (\<^verbatim>\<open>domChanges\<close>,
  \<^verbatim>\<open>stateChange\<close>, \<^verbatim>\<open>success\<close>) follow the last \<^verbatim>\<open>await\<close> and compute on plain
  values, so the block either throws with none of them made or ends with all three.
\<close>

definition interaction_attempt ::
  "'w page \<Rightarrow> node \<Rightarrow> interaction_test \<Rightarrow> dom_state \<Rightarrow> ('w, dom_changes \<times> state_change) prog" where
  "interaction_attempt pg element interaction initialDomState =
     await (run_in_page pg element read_state) (\<lambda>initialState.
     await (dispatch pg element interaction) (\<lambda>_.
     await (waitForTimeout pg 300) (\<lambda>_.
     await (captureNearbyElements pg element) (\<lambda>finalDomState.
     await (run_in_page pg element read_state) (\<lambda>finalState.
     return_val
       (analyzeDomChanges initialDomState finalDomState,
        \<lparr>focusChanged = (focused initialState \<noteq> focused finalState),
         ariaExpandedChanged = (st_ariaExpanded initialState \<noteq> st_ariaExpanded finalState),
         ariaPressedChanged = (st_ariaPressed initialState \<noteq> st_ariaPressed finalState),
         ariaSelectedChanged =
           (st_ariaSelected initialState \<noteq> st_ariaSelected finalState)\<rparr>))))))"

text \<open>
  The call of \<^verbatim>\<open>calculateAccessibilityScore\<close> stands after the \<^verbatim>\<open>catch\<close>, so an exception
  of the scorer would leave the function.
\<close>

definition testInteractionWithDomAnalysis ::
  "'w page \<Rightarrow> node \<Rightarrow> interaction_test \<Rightarrow> dom_state \<Rightarrow> ('w, interaction_data) prog" where
  "testInteractionWithDomAnalysis pg element interaction initialDomState =
     (\<lambda>w0.
        let interactionStart = date_now pg w0;
            (attempt, w1) = interaction_attempt pg element interaction initialDomState w0;
            (success, error, stateChange, domChanges) =
              (case attempt of
                 Inr (changes, change) \<Rightarrow> (True, None, Some change, Some changes)
               | Inl err \<Rightarrow> (False, Some (message err), None, None));
            interactionTime = date_now pg w1 - interactionStart
        in case calculateAccessibilityScore stateChange success domChanges of
             Inl e \<Rightarrow> (Inl e, w1)
           | Inr score \<Rightarrow>
               (Inr \<lparr>interactionResult =
                       \<lparr>ir_type = it_type interaction, success = success, error = error,
                        interactionTime = interactionTime, stateChange = stateChange,
                        accessibilityScore = score\<rparr>,
                     domChanges = domChanges\<rparr>, w1))"

subsection \<open>validateElement\<close>

record validation_result =
  found :: bool
  details :: "accessibility_details option"
  childFound :: bool
  childDetails :: "accessibility_details option"
  vr_interactionResult :: "interaction_result option"
  vr_domChanges :: "dom_changes option"
  executionTime :: int

text \<open>
  \<^verbatim>\<open>if (childSelector)\<close>: an optional string counts as supplied when it is defined and not
  empty.
\<close>

definition supplied :: "string option \<Rightarrow> string option" where
  "supplied s = (case s of None \<Rightarrow> None | Some t \<Rightarrow> if t = [] then None else Some t)"

text \<open>
  The five local variables \<^verbatim>\<open>details\<close>, \<^verbatim>\<open>childFound\<close>, \<^verbatim>\<open>childDetails\<close>,
  \<^verbatim>\<open>interactionResult\<close> and \<^verbatim>\<open>domChanges\<close> start as null, false, null, null, null; each
  branch returns the values they hold when the \<^verbatim>\<open>if (found)\<close> statement ends.
\<close>

type_synonym probe_locals =
  "accessibility_details option \<times> bool \<times> accessibility_details option \<times>
   interaction_result option \<times> dom_changes option"

definition probe_found ::
  "'w page \<Rightarrow> node \<Rightarrow> string option \<Rightarrow> string option \<Rightarrow> interaction_test option \<Rightarrow>
   ('w, probe_locals) prog" where
  "probe_found pg container desc childSelector interactionTest =
     await (analyzeAccessibility pg container) (\<lambda>details.
     await (log_described pg desc ContainerFound) (\<lambda>_.
     await (captureNearbyElements pg container) (\<lambda>initialDomState.
       case supplied childSelector of
         Some sel \<Rightarrow>
           await (query_within pg container sel) (\<lambda>childElement.
             case childElement of
               Some child \<Rightarrow>
                 await (analyzeAccessibility pg child) (\<lambda>childDetails.
                 await (log_described pg desc ChildFound) (\<lambda>_.
                   case interactionTest of
                     Some interaction \<Rightarrow>
                       await (testInteractionWithDomAnalysis pg child interaction initialDomState)
                         (\<lambda>interactionData.
                            return_val (Some details, True, Some childDetails,
                              Some (interactionResult interactionData),
                              domChanges interactionData))
                   | None \<Rightarrow> return_val (Some details, True, Some childDetails, None, None)))
             | None \<Rightarrow>
                 await (log_described pg desc ChildNotFound) (\<lambda>_.
                   return_val (Some details, False, None, None, None)))
       | None \<Rightarrow>
           (case interactionTest of
              Some interaction \<Rightarrow>
                await (testInteractionWithDomAnalysis pg container interaction initialDomState)
                  (\<lambda>interactionData.
                     return_val (Some details, False, None,
                       Some (interactionResult interactionData), domChanges interactionData))
            | None \<Rightarrow> return_val (Some details, False, None, None, None)))))"

definition validateElement ::
  "'w page \<Rightarrow> string \<Rightarrow> string option \<Rightarrow> string option \<Rightarrow> interaction_test option \<Rightarrow>
   ('w, validation_result) prog" where
  "validateElement pg selector desc childSelector interactionTest =
     (\<lambda>w0.
        let testStart = date_now pg w0
        in await (query pg selector) (\<lambda>container.
             await (case container of
                      Some c \<Rightarrow> probe_found pg c desc childSelector interactionTest
                    | None \<Rightarrow>
                        await (log_described pg desc ContainerNotFound) (\<lambda>_.
                          return_val (None, False, None, None, None)))
               (\<lambda>(details, childFound, childDetails, interactionResult, domChanges) w.
                  (Inr \<lparr>found = (container \<noteq> None), details = details,
                         childFound = childFound, childDetails = childDetails,
                         vr_interactionResult = interactionResult,
                         vr_domChanges = domChanges,
                         executionTime = date_now pg w - testStart\<rparr>, w))) w0)"

section \<open>What the specification says, in its own words\<close>

text \<open>
  The specification describes the diff by what it reports rather than by how the loops
  build it. The three lists, stated from the two snapshots: a new element is a visible
  candidate of the later snapshot that no visible candidate of the earlier one matches;
  siblings are compared position by position.
\<close>

definition appeared :: "dom_state \<Rightarrow> dom_state \<Rightarrow> nearby_element list" where
  "appeared before after =
     filter (\<lambda>x. nb_isVisible x \<and>
                 \<not> list_ex (\<lambda>y. nb_isVisible y \<and> same_element x y) (nearbyElements before))
       (nearbyElements after)"

definition visibility_flips :: "sibling list \<Rightarrow> sibling list \<Rightarrow> visibility_change list" where
  "visibility_flips before after =
     map (\<lambda>(i, f). \<lparr>vc_element = f, wasVisible = sb_isVisible i, nowVisible = sb_isVisible f\<rparr>)
       (filter (\<lambda>(i, f). sb_isVisible i \<noteq> sb_isVisible f) (zip before after))"

definition expansion_changes :: "sibling list \<Rightarrow> sibling list \<Rightarrow> expansion_change list" where
  "expansion_changes before after =
     map (\<lambda>(i, f). \<lparr>xc_element = f, wasExpanded = sb_ariaExpanded i,
                     nowExpanded = sb_ariaExpanded f\<rparr>)
       (filter (\<lambda>(i, f). sb_ariaExpanded i \<noteq> sb_ariaExpanded f) (zip before after))"

text \<open>The priority cascade of the specification, on the three lists of a report.\<close>

definition dropdown_like :: "nearby_element \<Rightarrow> bool" where
  "dropdown_like x \<longleftrightarrow>
     nb_tagName x = ''UL'' \<or> sublist ''dropdown'' (nb_className x)
     \<or> sublist ''menu'' (nb_className x)"

definition cascade ::
  "nearby_element list \<Rightarrow> visibility_change list \<Rightarrow> expansion_change list \<Rightarrow> string" where
  "cascade new flips expansions =
     (case new of
        x # _ \<Rightarrow>
          if dropdown_like x then ''dropdown''
          else if sublist ''modal'' (nb_className x) \<or> sublist ''dialog'' (nb_className x)
          then ''modal''
          else if nb_tagName x = ''INPUT'' \<or> sublist ''input'' (nb_className x)
          then ''input_expansion''
          else ''content_expansion''
      | [] \<Rightarrow>
          if flips \<noteq> [] then ''visibility_toggle''
          else if expansions \<noteq> [] then ''aria_expansion''
          else ''none'')"

text \<open>The first candidate that is neither absent nor empty, null when there is none.\<close>

definition first_non_empty :: "string option list \<Rightarrow> string option" where
  "first_non_empty candidates =
     (case find (\<lambda>c. c \<noteq> None \<and> c \<noteq> Some []) candidates of
        None \<Rightarrow> None
      | Some c \<Rightarrow> c)"

text \<open>
  What the specification says an interaction outcome looks like after a caught exception:
  no success, the message as the error, no state change, score 0, and no diff report.
\<close>

definition reports_failure :: "interaction_data \<Rightarrow> string \<Rightarrow> bool" where
  "reports_failure d msg \<longleftrightarrow>
     success (interactionResult d) = False \<and>
     error (interactionResult d) = Some msg \<and>
     stateChange (interactionResult d) = None \<and>
     accessibilityScore (interactionResult d) = 0 \<and>
     domChanges d = None"

section \<open>A page to run the functions on\<close>

text \<open>
  A small page in the shape of the booking widget: a container \<open>div\<close> (node 1) under the
  body (node 0) holds a toggle button (node 2) and an option list (node 3) that is shown
  once the button has been clicked. The world is whether the list is open. Hovering fails
  the way it does on an element that has left the document.
\<close>

definition demo_rect :: "bool \<Rightarrow> node \<Rightarrow> dom_rect" where
  "demo_rect opened n =
     (if n = 1 then
        \<lparr>rect_top = 90, rect_left = 0, rect_bottom = 140, rect_right = 400,
         rect_width = 400, rect_height = 50\<rparr>
      else if n = 2 then
        \<lparr>rect_top = 100, rect_left = 10, rect_bottom = 130, rect_right = 110,
         rect_width = 100, rect_height = 30\<rparr>
      else if n = 3 \<and> opened then
        \<lparr>rect_top = 135, rect_left = 10, rect_bottom = 225, rect_right = 210,
         rect_width = 200, rect_height = 90\<rparr>
      else
        \<lparr>rect_top = 0, rect_left = 0, rect_bottom = 0, rect_right = 0,
         rect_width = 0, rect_height = 0\<rparr>)"

definition demo_document :: "bool \<Rightarrow> document" where
  "demo_document opened =
     \<lparr>querySelectorAll = (\<lambda>sel. if sel = ''div, ul, section'' then [1, 3] else []),
      activeElement = (if opened then Some 2 else None),
      getBoundingClientRect = demo_rect opened,
      parentElement = (\<lambda>n. if n = 1 then Some 0 else if n = 2 \<or> n = 3 then Some 1 else None),
      children = (\<lambda>n. if n = 0 then [1] else if n = 1 then [2, 3] else []),
      contains = (\<lambda>a b. a = b \<or> a = 0 \<or> (a = 1 \<and> (b = 2 \<or> b = 3))),
      tagName = (\<lambda>n. if n = 0 then ''BODY'' else if n = 1 then ''DIV''
                       else if n = 2 then ''BUTTON'' else ''UL''),
      className = (\<lambda>n. if n = 1 then ''journey-type'' else if n = 2 then ''toggle''
                         else if n = 3 then ''options'' else []),
      elem_id = (\<lambda>n. if n = 1 then ''journey'' else []),
      offsetParent = (\<lambda>n. if n = 1 \<or> n = 2 \<or> (n = 3 \<and> opened) then Some 0 else None),
      attributes = (\<lambda>n. if n = 2
                          then [(''aria-expanded'', if opened then ''true'' else ''false''),
                                (''aria-labelledby'', ''journey-label''),
                                (''title'', ''Choose a journey type'')]
                          else if n = 1 then [(''id'', ''journey''), (''role'', ''group'')]
                          else []),
      tabIndex = (\<lambda>n. if n = 2 then 0 else - 1),
      innerText = (\<lambda>n. if n = 2 then Some '' Round trip '' else Some [])\<rparr>"

definition demo_page :: "bool page" where
  "demo_page =
     \<lparr>query = (\<lambda>sel w. (Inr (if sel = ''#journey'' then Some 1 else None), w)),
      query_within = (\<lambda>el sel w. (Inr (if el = 1 \<and> sel = ''button'' then Some 2 else None), w)),
      evaluate = (\<lambda>el w. (Inr (demo_document w), w)),
      isVisible = (\<lambda>el w. (Inr (el \<noteq> 3 \<or> w), w)),
      click = (\<lambda>el w. (Inr (), el = 2 \<or> w)),
      focus = (\<lambda>el w. (Inr (), w)),
      hover = (\<lambda>el w. (Inl (Error ''Element is not attached to the DOM''), w)),
      press = (\<lambda>el k w. (Inr (), w)),
      waitForTimeout = (\<lambda>ms w. (Inr (), w)),
      date_now = (\<lambda>w. if w then 1300 else 1000),
      console_log = (\<lambda>line w. w)\<rparr>"

text \<open>The record that \<open>analyzeAccessibility\<close> builds when every read is made in one document.\<close>

definition details_in :: "document \<Rightarrow> node \<Rightarrow> bool \<Rightarrow> accessibility_details" where
  "details_in doc el visible =
     \<lparr>ad_tagName = tagName doc el, ad_isVisible = visible,
      isFocusable = is_focusable doc el, ariaAttributes = aria_attributes doc el,
      accessibleName = accessible_name doc el,
      hasValidSemantics = has_valid_semantics doc el\<rparr>"

definition click_test :: interaction_test where
  "click_test = \<lparr>it_type = Click, it_key = None, expectStateChange = None\<rparr>"

definition hover_test :: interaction_test where
  "hover_test = \<lparr>it_type = Hover, it_key = None, expectStateChange = None\<rparr>"

text \<open>
  Two snapshots for the precedence rule: the click reveals a wrapper \<open>div\<close> whose first
  child is a \<open>ul\<close> of class \<open>dropdown\<close>, and hides a hint that is a sibling of the button.
  In document order the wrapper comes before the list.
\<close>

definition toggle_sibling :: sibling where
  "toggle_sibling =
     \<lparr>sb_tagName = ''BUTTON'', sb_className = ''toggle'', sb_id = [], sb_isVisible = True,
      sb_hasAriaExpanded = False, sb_ariaExpanded = None\<rparr>"

definition hint_sibling :: "bool \<Rightarrow> sibling" where
  "hint_sibling visible =
     \<lparr>sb_tagName = ''SPAN'', sb_className = ''hint'', sb_id = [], sb_isVisible = visible,
      sb_hasAriaExpanded = False, sb_ariaExpanded = None\<rparr>"

definition wrapper_element :: nearby_element where
  "wrapper_element =
     \<lparr>nb_tagName = ''DIV'', nb_className = ''panel'', nb_id = [], nb_isVisible = True,
      nb_position = \<lparr>pos_top = 135, pos_left = 10, pos_width = 220, pos_height = 110\<rparr>\<rparr>"

definition list_element :: nearby_element where
  "list_element =
     \<lparr>nb_tagName = ''UL'', nb_className = ''dropdown'', nb_id = [], nb_isVisible = True,
      nb_position = \<lparr>pos_top = 145, pos_left = 20, pos_width = 200, pos_height = 90\<rparr>\<rparr>"

definition wrapped_before :: dom_state where
  "wrapped_before =
     \<lparr>elementPosition = \<lparr>ep_top = 100, ep_left = 10, ep_bottom = 130, ep_right = 110\<rparr>,
      parentTagName = Some ''DIV'',
      siblings = [toggle_sibling, hint_sibling True],
      nearbyElements = []\<rparr>"

definition wrapped_after :: dom_state where
  "wrapped_after =
     \<lparr>elementPosition = \<lparr>ep_top = 100, ep_left = 10, ep_bottom = 130, ep_right = 110\<rparr>,
      parentTagName = Some ''DIV'',
      siblings = [toggle_sibling, hint_sibling False],
      nearbyElements = [wrapper_element, list_element]\<rparr>"

section \<open>Facts about the diff\<close>

lemma str_includes_sublist: "str_includes s pat \<longleftrightarrow> sublist pat s"
  by (induction s) (auto simp: sublist_Cons_right)

lemma list_ex_filter: "list_ex P (filter Q xs) = list_ex (\<lambda>y. Q y \<and> P y) xs"
  by (induction xs) auto

lemma foldl_note_new_element:
  "foldl (note_new_element V) c xs =
     c\<lparr>newElements := newElements c @ filter (\<lambda>f. \<not> list_ex (same_element f) V) xs\<rparr>"
  by (induction xs arbitrary: c) (simp_all add: note_new_element_def)

lemma visibility_flips_Nil [simp]:
  "visibility_flips [] fs = []" "visibility_flips is [] = []"
  by (simp_all add: visibility_flips_def)

lemma expansion_changes_Nil [simp]:
  "expansion_changes [] fs = []" "expansion_changes is [] = []"
  by (simp_all add: expansion_changes_def)

lemma visibility_flips_Cons:
  "visibility_flips (i # is) (f # fs) =
     (if sb_isVisible i \<noteq> sb_isVisible f
      then [\<lparr>vc_element = f, wasVisible = sb_isVisible i, nowVisible = sb_isVisible f\<rparr>]
      else []) @ visibility_flips is fs"
  by (simp add: visibility_flips_def)

lemma expansion_changes_Cons:
  "expansion_changes (i # is) (f # fs) =
     (if sb_ariaExpanded i \<noteq> sb_ariaExpanded f
      then [\<lparr>xc_element = f, wasExpanded = sb_ariaExpanded i, nowExpanded = sb_ariaExpanded f\<rparr>]
      else []) @ expansion_changes is fs"
  by (simp add: expansion_changes_def)

lemma note_sibling_in_range:
  "n < length (siblings I) \<Longrightarrow>
   note_sibling I c (n, f) =
     c\<lparr>changedVisibility := changedVisibility c @ visibility_flips [siblings I ! n] [f],
       expandedElements := expandedElements c @ expansion_changes [siblings I ! n] [f]\<rparr>"
  by (simp add: note_sibling_def index_at_def visibility_flips_Cons expansion_changes_Cons)

lemma note_sibling_out_of_range:
  "\<not> n < length (siblings I) \<Longrightarrow> note_sibling I c (n, f) = c"
  by (simp add: note_sibling_def index_at_def)

text \<open>
  The second loop, started at any index \<open>n\<close>: the final siblings from there on are paired
  with the initial siblings from \<open>n\<close> on, as far as both lists reach.
\<close>

lemma foldl_note_sibling:
  "foldl (note_sibling I) c (enumerate n fs) =
     c\<lparr>changedVisibility := changedVisibility c @ visibility_flips (drop n (siblings I)) fs,
       expandedElements := expandedElements c @ expansion_changes (drop n (siblings I)) fs\<rparr>"
proof (induction fs arbitrary: c n)
  case Nil
  then show ?case by simp
next
  case (Cons f fs)
  show ?case
  proof (cases "n < length (siblings I)")
    case True
    then have d: "drop n (siblings I) = siblings I ! n # drop (Suc n) (siblings I)"
      by (simp add: Cons_nth_drop_Suc)
    show ?thesis
      by (simp add: Cons.IH note_sibling_in_range [OF True] d visibility_flips_Cons
          expansion_changes_Cons del: append_assoc)
  next
    case False
    then show ?thesis
      by (simp add: Cons.IH note_sibling_out_of_range)
  qed
qed

lemma analyzeDomChanges_unfold:
  "analyzeDomChanges before after =
     classify \<lparr>newElements = appeared before after,
               changedVisibility = visibility_flips (siblings before) (siblings after),
               expandedElements = expansion_changes (siblings before) (siblings after),
               interactionType = ''none'', description = []\<rparr>"
  by (simp add: analyzeDomChanges_def foldl_note_new_element foldl_note_sibling appeared_def
      list_ex_filter)

lemma classify_lists [simp]:
  "newElements (classify c) = newElements c"
  "changedVisibility (classify c) = changedVisibility c"
  "expandedElements (classify c) = expandedElements c"
  by (simp_all add: classify_def split: list.splits)

lemma analyzeDomChanges_lists:
  "newElements (analyzeDomChanges before after) = appeared before after"
  "changedVisibility (analyzeDomChanges before after) =
     visibility_flips (siblings before) (siblings after)"
  "expandedElements (analyzeDomChanges before after) =
     expansion_changes (siblings before) (siblings after)"
  by (simp_all add: analyzeDomChanges_unfold)

lemma classify_cascade:
  "interactionType c = ''none'' \<Longrightarrow>
   interactionType (classify c) =
     cascade (newElements c) (changedVisibility c) (expandedElements c)"
  by (simp add: classify_def cascade_def dropdown_like_def str_includes_sublist
      split: list.splits)

lemma analyzeDomChanges_cascade:
  "interactionType (analyzeDomChanges before after) =
     cascade (newElements (analyzeDomChanges before after))
       (changedVisibility (analyzeDomChanges before after))
       (expandedElements (analyzeDomChanges before after))"
  by (simp add: analyzeDomChanges_unfold classify_cascade)

lemma cascade_none_iff:
  "cascade new flips expansions = ''none'' \<longleftrightarrow> new = [] \<and> flips = [] \<and> expansions = []"
  by (simp add: cascade_def split: list.splits)

lemma visibility_flips_same: "visibility_flips xs xs = []"
  by (induction xs) (simp_all add: visibility_flips_Cons)

lemma expansion_changes_same: "expansion_changes xs xs = []"
  by (induction xs) (simp_all add: expansion_changes_Cons)

lemma appeared_same: "appeared S S = []"
  by (auto simp: appeared_def filter_empty_conv list_ex_iff same_element_def)

subsection \<open>The demonstration page, evaluated\<close>

lemma demo_closed_snapshot:
  "snapshot_around (demo_document False) 2 =
     \<lparr>elementPosition = \<lparr>ep_top = 100, ep_left = 10, ep_bottom = 130, ep_right = 110\<rparr>,
      parentTagName = Some ''DIV'',
      siblings =
        [\<lparr>sb_tagName = ''BUTTON'', sb_className = ''toggle'', sb_id = [],
          sb_isVisible = True, sb_hasAriaExpanded = True, sb_ariaExpanded = Some ''false''\<rparr>,
         \<lparr>sb_tagName = ''UL'', sb_className = ''options'', sb_id = [],
          sb_isVisible = False, sb_hasAriaExpanded = False, sb_ariaExpanded = None\<rparr>],
      nearbyElements = []\<rparr>"
  by (simp add: snapshot_around_def demo_document_def demo_rect_def is_nearby_candidate_def
      describe_sibling_def describe_nearby_def getAttribute_def hasAttribute_def)

lemma demo_opened_snapshot:
  "snapshot_around (demo_document True) 2 =
     \<lparr>elementPosition = \<lparr>ep_top = 100, ep_left = 10, ep_bottom = 130, ep_right = 110\<rparr>,
      parentTagName = Some ''DIV'',
      siblings =
        [\<lparr>sb_tagName = ''BUTTON'', sb_className = ''toggle'', sb_id = [],
          sb_isVisible = True, sb_hasAriaExpanded = True, sb_ariaExpanded = Some ''true''\<rparr>,
         \<lparr>sb_tagName = ''UL'', sb_className = ''options'', sb_id = [],
          sb_isVisible = True, sb_hasAriaExpanded = False, sb_ariaExpanded = None\<rparr>],
      nearbyElements =
        [\<lparr>nb_tagName = ''UL'', nb_className = ''options'', nb_id = [], nb_isVisible = True,
          nb_position = \<lparr>pos_top = 135, pos_left = 10, pos_width = 200, pos_height = 90\<rparr>\<rparr>]\<rparr>"
  by (simp add: snapshot_around_def demo_document_def demo_rect_def is_nearby_candidate_def
      describe_sibling_def describe_nearby_def getAttribute_def hasAttribute_def)

lemma demo_container_snapshot:
  "snapshot_around (demo_document False) 1 =
     \<lparr>elementPosition = \<lparr>ep_top = 90, ep_left = 0, ep_bottom = 140, ep_right = 400\<rparr>,
      parentTagName = Some ''BODY'',
      siblings =
        [\<lparr>sb_tagName = ''DIV'', sb_className = ''journey-type'', sb_id = ''journey'',
          sb_isVisible = True, sb_hasAriaExpanded = False, sb_ariaExpanded = None\<rparr>],
      nearbyElements = []\<rparr>"
  by (simp add: snapshot_around_def demo_document_def demo_rect_def is_nearby_candidate_def
      describe_sibling_def describe_nearby_def getAttribute_def hasAttribute_def)

lemma demo_click_diff:
  "analyzeDomChanges (snapshot_around (demo_document False) 2)
     (snapshot_around (demo_document True) 2) =
     \<lparr>newElements =
        [\<lparr>nb_tagName = ''UL'', nb_className = ''options'', nb_id = [], nb_isVisible = True,
          nb_position = \<lparr>pos_top = 135, pos_left = 10, pos_width = 200, pos_height = 90\<rparr>\<rparr>],
      changedVisibility =
        [\<lparr>vc_element =
            \<lparr>sb_tagName = ''UL'', sb_className = ''options'', sb_id = [],
             sb_isVisible = True, sb_hasAriaExpanded = False, sb_ariaExpanded = None\<rparr>,
          wasVisible = False, nowVisible = True\<rparr>],
      expandedElements =
        [\<lparr>xc_element =
            \<lparr>sb_tagName = ''BUTTON'', sb_className = ''toggle'', sb_id = [],
             sb_isVisible = True, sb_hasAriaExpanded = True, sb_ariaExpanded = Some ''true''\<rparr>,
          wasExpanded = Some ''false'', nowExpanded = Some ''true''\<rparr>],
      interactionType = ''dropdown'',
      description = ''Opened dropdown with 1 new elements''\<rparr>"
  by (simp add: demo_closed_snapshot demo_opened_snapshot analyzeDomChanges_unfold appeared_def
      visibility_flips_def expansion_changes_def classify_def string_of_nat.simps
      string_of_digit_def)


section \<open>The claims about the scorer\<close>

text \<open>
  Claim C1. For every state change (also a null one), every success flag and every report
  of the diff analyzer (indeed every non-null report), the scorer returns a number, that
  number lies between 0 and 100, and it is 0 whenever \<open>success\<close> is false. With
  \<open>success\<close> false the score is 0 for a null report too, which is the call the executor
  makes after a caught exception.
\<close>

theorem score_in_range:
  "(\<exists>n. calculateAccessibilityScore change ok (Some report) = Inr n \<and>
        0 \<le> n \<and> n \<le> 100 \<and> (\<not> ok \<longrightarrow> n = 0)) \<and>
   calculateAccessibilityScore change False any_report = Inr 0"
  by (simp add: calculateAccessibilityScore_def Let_def)

theorem score_in_range_witness:
  "(\<exists>n. calculateAccessibilityScore None False
          (Some (analyzeDomChanges (snapshot_around (demo_document False) 2)
                   (snapshot_around (demo_document True) 2))) = Inr n \<and>
        0 \<le> n \<and> n \<le> 100 \<and> (\<not> False \<longrightarrow> n = 0)) \<and>
   calculateAccessibilityScore None False None = Inr 0"
  using score_in_range [of None False
      "analyzeDomChanges (snapshot_around (demo_document False) 2)
         (snapshot_around (demo_document True) 2)" None]
  by simp

text \<open>
  Claim C4. For a successful outcome the diff report is the analyzer's, and on such a
  report the score is 50, plus 20, 15, 10 and 5 for the four flags of the state change,
  plus 10 when the interaction type is not \<open>none\<close>, plus 5 when \<open>expandedElements\<close> is not
  empty, cut off at 100. The source adds the last 5 only inside the test for the 10; on a
  report of the analyzer a non-empty \<open>expandedElements\<close> always comes with a type other
  than \<open>none\<close>, so the two agree. A successful interaction classified \<open>dropdown\<close> scores
  at least 60.
\<close>

theorem score_formula:
  "calculateAccessibilityScore change True (Some (analyzeDomChanges before after)) =
     Inr (min (50
        + (if flag_of focusChanged change then 20 else 0)
        + (if flag_of ariaExpandedChanged change then 15 else 0)
        + (if flag_of ariaPressedChanged change then 10 else 0)
        + (if flag_of ariaSelectedChanged change then 5 else 0)
        + (if interactionType (analyzeDomChanges before after) \<noteq> ''none'' then 10 else 0)
        + (if expandedElements (analyzeDomChanges before after) \<noteq> [] then 5 else 0)) 100) \<and>
   (interactionType (analyzeDomChanges before after) = ''dropdown'' \<longrightarrow>
      (\<exists>n. calculateAccessibilityScore change True
              (Some (analyzeDomChanges before after)) = Inr n \<and> 60 \<le> n))"
proof -
  have "expandedElements (analyzeDomChanges before after) \<noteq> [] \<longrightarrow>
        interactionType (analyzeDomChanges before after) \<noteq> ''none''"
    using analyzeDomChanges_cascade [of before after] cascade_none_iff by metis
  then show ?thesis
    by (simp add: calculateAccessibilityScore_def Let_def)
qed

theorem score_formula_witness:
  "interactionType (analyzeDomChanges (snapshot_around (demo_document False) 2)
      (snapshot_around (demo_document True) 2)) = ''dropdown'' \<and>
   calculateAccessibilityScore
     (Some \<lparr>focusChanged = True, ariaExpandedChanged = True, ariaPressedChanged = False,
            ariaSelectedChanged = False\<rparr>) True
     (Some (analyzeDomChanges (snapshot_around (demo_document False) 2)
        (snapshot_around (demo_document True) 2))) = Inr 100"
  using score_formula [of
      "Some \<lparr>focusChanged = True, ariaExpandedChanged = True, ariaPressedChanged = False,
             ariaSelectedChanged = False\<rparr>"
      "snapshot_around (demo_document False) 2" "snapshot_around (demo_document True) 2"]
  by (simp add: demo_click_diff flag_of_def)

section \<open>The claims about the diff\<close>

text \<open>
  Claim C5, as amended. The interaction type of a report is the cascade of the
  specification on the report's own three lists: with a new element, the first new
  element alone decides between \<open>dropdown\<close>, \<open>modal\<close>, \<open>input_expansion\<close> and
  \<open>content_expansion\<close>; else a visibility change gives \<open>visibility_toggle\<close>; else an
  aria-expanded change gives \<open>aria_expansion\<close>; else \<open>none\<close>. When the first new element
  is dropdown-like and a sibling visibility change is present, the type is \<open>dropdown\<close>.
\<close>

theorem classification_cascade:
  "interactionType (analyzeDomChanges before after) =
     cascade (newElements (analyzeDomChanges before after))
       (changedVisibility (analyzeDomChanges before after))
       (expandedElements (analyzeDomChanges before after)) \<and>
   (\<forall>x rest.
      newElements (analyzeDomChanges before after) = x # rest \<and> dropdown_like x \<and>
      changedVisibility (analyzeDomChanges before after) \<noteq> [] \<longrightarrow>
      interactionType (analyzeDomChanges before after) = ''dropdown'')"
proof -
  have c: "interactionType (analyzeDomChanges before after) =
     cascade (newElements (analyzeDomChanges before after))
       (changedVisibility (analyzeDomChanges before after))
       (expandedElements (analyzeDomChanges before after))"
    by (rule analyzeDomChanges_cascade)
  have "interactionType (analyzeDomChanges before after) = ''dropdown''"
    if "newElements (analyzeDomChanges before after) = x # rest" and "dropdown_like x"
    for x rest
    using that by (subst c) (simp add: cascade_def)
  with c show ?thesis by blast
qed

theorem classification_cascade_witness:
  "interactionType (analyzeDomChanges (snapshot_around (demo_document False) 2)
      (snapshot_around (demo_document True) 2)) = ''dropdown''"
proof -
  let ?r = "analyzeDomChanges (snapshot_around (demo_document False) 2)
      (snapshot_around (demo_document True) 2)"
  let ?x = "\<lparr>nb_tagName = ''UL'', nb_className = ''options'', nb_id = [], nb_isVisible = True,
      nb_position = \<lparr>pos_top = 135, pos_left = 10, pos_width = 200, pos_height = 90\<rparr>\<rparr>"
  have "newElements ?r = ?x # []" and "dropdown_like ?x" and "changedVisibility ?r \<noteq> []"
    by (simp_all add: demo_click_diff dropdown_like_def)
  with classification_cascade [of "snapshot_around (demo_document False) 2"
      "snapshot_around (demo_document True) 2"]
  show ?thesis by blast
qed

text \<open>
  Claim C5 as it stands says that a new dropdown-like element together with a sibling
  visibility change gives \<open>dropdown\<close>. Here the click reveals a wrapper and, inside it, a
  \<open>ul\<close> of class \<open>dropdown\<close>, and hides a sibling: both new elements are reported, the
  list among them, a visibility change is reported, and the type is
  \<open>content_expansion\<close>, decided by the wrapper, which comes first.
\<close>

theorem classification_counterexample:
  "newElements (analyzeDomChanges wrapped_before wrapped_after) = [wrapper_element, list_element] \<and>
   nb_tagName list_element = ''UL'' \<and>
   str_includes (nb_className list_element) ''dropdown'' \<and>
   changedVisibility (analyzeDomChanges wrapped_before wrapped_after) =
     [\<lparr>vc_element = hint_sibling False, wasVisible = True, nowVisible = False\<rparr>] \<and>
   interactionType (analyzeDomChanges wrapped_before wrapped_after) = ''content_expansion''"
  by (simp add: analyzeDomChanges_unfold appeared_def visibility_flips_def classify_def
      wrapped_before_def wrapped_after_def wrapper_element_def list_element_def
      toggle_sibling_def hint_sibling_def)

text \<open>
  Claim C6. The diff of a snapshot against itself reports nothing: the three lists are
  empty, the type is \<open>none\<close> and the description is the empty string.
\<close>

theorem diff_of_identical_snapshots:
  "analyzeDomChanges S S =
     \<lparr>newElements = [], changedVisibility = [], expandedElements = [],
      interactionType = ''none'', description = []\<rparr>"
  by (simp add: analyzeDomChanges_unfold appeared_same visibility_flips_same
      expansion_changes_same classify_def)

theorem diff_of_identical_snapshots_witness:
  "interactionType (analyzeDomChanges (snapshot_around (demo_document True) 2)
      (snapshot_around (demo_document True) 2)) = ''none'' \<and>
   nearbyElements (snapshot_around (demo_document True) 2) \<noteq> []"
  using diff_of_identical_snapshots [of "snapshot_around (demo_document True) 2"]
  by (simp add: demo_opened_snapshot)


lemma zip_take_right: "zip xs (take (length xs) ys) = zip xs ys"
proof (induction xs arbitrary: ys)
  case Nil
  then show ?case by simp
next
  case (Cons x xs)
  then show ?case by (cases ys) simp_all
qed

lemma zip_take_left: "zip (take (length ys) xs) ys = zip xs ys"
proof (induction ys arbitrary: xs)
  case Nil
  then show ?case by simp
next
  case (Cons y ys)
  then show ?case by (cases xs) simp_all
qed

lemma appeared_siblings_update [simp]:
  "appeared (before\<lparr>siblings := is\<rparr>) after = appeared before after"
  "appeared before (after\<lparr>siblings := fs\<rparr>) = appeared before after"
  by (simp_all add: appeared_def)

lemma set_visibility_flips: "vc_element ` set (visibility_flips is fs) \<subseteq> set fs"
  by (auto simp: visibility_flips_def dest: set_zip_rightD)

lemma set_expansion_changes: "xc_element ` set (expansion_changes is fs) \<subseteq> set fs"
  by (auto simp: expansion_changes_def dest: set_zip_rightD)

lemma visibility_flips_nth:
  "k < length is \<Longrightarrow> k < length fs \<Longrightarrow> sb_isVisible (is ! k) \<noteq> sb_isVisible (fs ! k) \<Longrightarrow>
   \<lparr>vc_element = fs ! k, wasVisible = sb_isVisible (is ! k), nowVisible = sb_isVisible (fs ! k)\<rparr>
     \<in> set (visibility_flips is fs)"
  by (force simp: visibility_flips_def in_set_zip)

lemma expansion_changes_nth:
  "k < length is \<Longrightarrow> k < length fs \<Longrightarrow> sb_ariaExpanded (is ! k) \<noteq> sb_ariaExpanded (fs ! k) \<Longrightarrow>
   \<lparr>xc_element = fs ! k, wasExpanded = sb_ariaExpanded (is ! k),
    nowExpanded = sb_ariaExpanded (fs ! k)\<rparr>
     \<in> set (expansion_changes is fs)"
  by (force simp: expansion_changes_def in_set_zip)

lemma demo_closing_diff:
  "analyzeDomChanges (snapshot_around (demo_document True) 2)
     (snapshot_around (demo_document False) 2) =
     \<lparr>newElements = [],
      changedVisibility =
        [\<lparr>vc_element =
            \<lparr>sb_tagName = ''UL'', sb_className = ''options'', sb_id = [],
             sb_isVisible = False, sb_hasAriaExpanded = False, sb_ariaExpanded = None\<rparr>,
          wasVisible = True, nowVisible = False\<rparr>],
      expandedElements =
        [\<lparr>xc_element =
            \<lparr>sb_tagName = ''BUTTON'', sb_className = ''toggle'', sb_id = [],
             sb_isVisible = True, sb_hasAriaExpanded = True, sb_ariaExpanded = Some ''false''\<rparr>,
          wasExpanded = Some ''true'', nowExpanded = Some ''false''\<rparr>],
      interactionType = ''visibility_toggle'',
      description = ''Toggled visibility of 1 elements''\<rparr>"
  unfolding demo_closed_snapshot demo_opened_snapshot
  by (simp add: analyzeDomChanges_unfold appeared_def visibility_flips_def
      expansion_changes_def classify_def string_of_nat.simps string_of_digit_def)

text \<open>
  Claim C10, as amended. Every element named in a change list is an element of the later
  snapshot: a new element is one of its visible nearby elements, so a nearby element that
  is absent or not visible afterwards is never reported as new, and the element of a
  visibility or aria-expanded change is one of its siblings. The two sibling lists are
  the position-by-position comparison of the sibling lists, over the positions both
  snapshots have: cutting the later list down to the length of the earlier one, or the
  earlier one down to the length of the later one, leaves the whole report as it is, so
  later siblings beyond the earlier list are skipped and earlier siblings beyond the later
  list report nothing. At every position both lists have, a sibling whose visibility flag
  differs from that of the earlier sibling at that position is reported in
  \<open>changedVisibility\<close>, in either direction, and one whose aria-expanded value differs is
  reported in \<open>expandedElements\<close>.
\<close>

theorem diff_reports_no_removals:
  "changedVisibility (analyzeDomChanges before after) =
     visibility_flips (siblings before) (siblings after) \<and>
   expandedElements (analyzeDomChanges before after) =
     expansion_changes (siblings before) (siblings after) \<and>
   analyzeDomChanges before
     (after\<lparr>siblings := take (length (siblings before)) (siblings after)\<rparr>) =
     analyzeDomChanges before after \<and>
   analyzeDomChanges
     (before\<lparr>siblings := take (length (siblings after)) (siblings before)\<rparr>) after =
     analyzeDomChanges before after \<and>
   (\<forall>x. x \<in> set (newElements (analyzeDomChanges before after)) \<longrightarrow>
        x \<in> set (nearbyElements after) \<and> nb_isVisible x) \<and>
   (\<forall>c. c \<in> set (changedVisibility (analyzeDomChanges before after)) \<longrightarrow>
        vc_element c \<in> set (siblings after)) \<and>
   (\<forall>c. c \<in> set (expandedElements (analyzeDomChanges before after)) \<longrightarrow>
        xc_element c \<in> set (siblings after)) \<and>
   (\<forall>k. k < length (siblings before) \<and> k < length (siblings after) \<and>
        sb_isVisible (siblings before ! k) \<noteq> sb_isVisible (siblings after ! k) \<longrightarrow>
        \<lparr>vc_element = siblings after ! k, wasVisible = sb_isVisible (siblings before ! k),
         nowVisible = sb_isVisible (siblings after ! k)\<rparr>
          \<in> set (changedVisibility (analyzeDomChanges before after))) \<and>
   (\<forall>k. k < length (siblings before) \<and> k < length (siblings after) \<and>
        sb_ariaExpanded (siblings before ! k) \<noteq> sb_ariaExpanded (siblings after ! k) \<longrightarrow>
        \<lparr>xc_element = siblings after ! k, wasExpanded = sb_ariaExpanded (siblings before ! k),
         nowExpanded = sb_ariaExpanded (siblings after ! k)\<rparr>
          \<in> set (expandedElements (analyzeDomChanges before after)))"
proof -
  have skip_after: "analyzeDomChanges before
     (after\<lparr>siblings := take (length (siblings before)) (siblings after)\<rparr>) =
     analyzeDomChanges before after"
    by (simp add: analyzeDomChanges_unfold visibility_flips_def expansion_changes_def
        zip_take_right)
  have skip_before: "analyzeDomChanges
     (before\<lparr>siblings := take (length (siblings after)) (siblings before)\<rparr>) after =
     analyzeDomChanges before after"
    by (simp add: analyzeDomChanges_unfold visibility_flips_def expansion_changes_def
        zip_take_left)
  have new: "x \<in> set (nearbyElements after) \<and> nb_isVisible x"
    if "x \<in> set (newElements (analyzeDomChanges before after))" for x
    using that by (simp add: analyzeDomChanges_lists appeared_def)
  have vis: "vc_element c \<in> set (siblings after)"
    if "c \<in> set (changedVisibility (analyzeDomChanges before after))" for c
    using that set_visibility_flips [of "siblings before" "siblings after"]
    by (auto simp: analyzeDomChanges_lists)
  have exp: "xc_element c \<in> set (siblings after)"
    if "c \<in> set (expandedElements (analyzeDomChanges before after))" for c
    using that set_expansion_changes [of "siblings before" "siblings after"]
    by (auto simp: analyzeDomChanges_lists)
  have flip_in_place:
    "\<lparr>vc_element = siblings after ! k, wasVisible = sb_isVisible (siblings before ! k),
      nowVisible = sb_isVisible (siblings after ! k)\<rparr>
       \<in> set (changedVisibility (analyzeDomChanges before after))"
    if "k < length (siblings before) \<and> k < length (siblings after) \<and>
        sb_isVisible (siblings before ! k) \<noteq> sb_isVisible (siblings after ! k)" for k
    using that visibility_flips_nth [of k "siblings before" "siblings after"]
    by (simp add: analyzeDomChanges_lists)
  have expand_in_place:
    "\<lparr>xc_element = siblings after ! k, wasExpanded = sb_ariaExpanded (siblings before ! k),
      nowExpanded = sb_ariaExpanded (siblings after ! k)\<rparr>
       \<in> set (expandedElements (analyzeDomChanges before after))"
    if "k < length (siblings before) \<and> k < length (siblings after) \<and>
        sb_ariaExpanded (siblings before ! k) \<noteq> sb_ariaExpanded (siblings after ! k)" for k
    using that expansion_changes_nth [of k "siblings before" "siblings after"]
    by (simp add: analyzeDomChanges_lists)
  have lists: "changedVisibility (analyzeDomChanges before after) =
      visibility_flips (siblings before) (siblings after)"
    "expandedElements (analyzeDomChanges before after) =
      expansion_changes (siblings before) (siblings after)"
    by (simp_all add: analyzeDomChanges_lists)
  from lists skip_after skip_before new vis exp flip_in_place expand_in_place
  show ?thesis
    by (intro conjI allI impI) blast+
qed

text \<open>
  On the demonstration page, diffing the open state against the closed one: the option
  list was a visible nearby element, is no nearby element afterwards, and is not reported
  as new; as the second sibling it is hidden in place, and that is reported.
\<close>

theorem diff_reports_no_removals_witness:
  "\<lparr>nb_tagName = ''UL'', nb_className = ''options'', nb_id = [], nb_isVisible = True,
     nb_position = \<lparr>pos_top = 135, pos_left = 10, pos_width = 200, pos_height = 90\<rparr>\<rparr>
     \<in> set (nearbyElements (snapshot_around (demo_document True) 2)) \<and>
   \<lparr>nb_tagName = ''UL'', nb_className = ''options'', nb_id = [], nb_isVisible = True,
     nb_position = \<lparr>pos_top = 135, pos_left = 10, pos_width = 200, pos_height = 90\<rparr>\<rparr>
     \<notin> set (nearbyElements (snapshot_around (demo_document False) 2)) \<and>
   \<lparr>nb_tagName = ''UL'', nb_className = ''options'', nb_id = [], nb_isVisible = True,
     nb_position = \<lparr>pos_top = 135, pos_left = 10, pos_width = 200, pos_height = 90\<rparr>\<rparr>
     \<notin> set (newElements (analyzeDomChanges (snapshot_around (demo_document True) 2)
              (snapshot_around (demo_document False) 2))) \<and>
   \<lparr>vc_element =
       \<lparr>sb_tagName = ''UL'', sb_className = ''options'', sb_id = [],
        sb_isVisible = False, sb_hasAriaExpanded = False, sb_ariaExpanded = None\<rparr>,
     wasVisible = True, nowVisible = False\<rparr>
     \<in> set (changedVisibility (analyzeDomChanges (snapshot_around (demo_document True) 2)
              (snapshot_around (demo_document False) 2)))"
proof -
  note inst = diff_reports_no_removals [of "snapshot_around (demo_document True) 2"
      "snapshot_around (demo_document False) 2"]
  have never_new:
    "\<lparr>nb_tagName = ''UL'', nb_className = ''options'', nb_id = [], nb_isVisible = True,
       nb_position = \<lparr>pos_top = 135, pos_left = 10, pos_width = 200, pos_height = 90\<rparr>\<rparr>
       \<in> set (nearbyElements (snapshot_around (demo_document True) 2)) \<and>
     \<lparr>nb_tagName = ''UL'', nb_className = ''options'', nb_id = [], nb_isVisible = True,
       nb_position = \<lparr>pos_top = 135, pos_left = 10, pos_width = 200, pos_height = 90\<rparr>\<rparr>
       \<notin> set (nearbyElements (snapshot_around (demo_document False) 2)) \<and>
     \<lparr>nb_tagName = ''UL'', nb_className = ''options'', nb_id = [], nb_isVisible = True,
       nb_position = \<lparr>pos_top = 135, pos_left = 10, pos_width = 200, pos_height = 90\<rparr>\<rparr>
       \<notin> set (newElements (analyzeDomChanges (snapshot_around (demo_document True) 2)
                (snapshot_around (demo_document False) 2)))"
    using inst by (auto simp: demo_opened_snapshot demo_closed_snapshot)
  from inst have in_place: "\<forall>k.
      k < length (siblings (snapshot_around (demo_document True) 2)) \<and>
      k < length (siblings (snapshot_around (demo_document False) 2)) \<and>
      sb_isVisible (siblings (snapshot_around (demo_document True) 2) ! k) \<noteq>
        sb_isVisible (siblings (snapshot_around (demo_document False) 2) ! k) \<longrightarrow>
      \<lparr>vc_element = siblings (snapshot_around (demo_document False) 2) ! k,
       wasVisible = sb_isVisible (siblings (snapshot_around (demo_document True) 2) ! k),
       nowVisible = sb_isVisible (siblings (snapshot_around (demo_document False) 2) ! k)\<rparr>
        \<in> set (changedVisibility (analyzeDomChanges (snapshot_around (demo_document True) 2)
                 (snapshot_around (demo_document False) 2)))"
    by (elim conjE)
  have second: "siblings (snapshot_around (demo_document True) 2) ! 1 =
        \<lparr>sb_tagName = ''UL'', sb_className = ''options'', sb_id = [],
         sb_isVisible = True, sb_hasAriaExpanded = False, sb_ariaExpanded = None\<rparr>"
      "siblings (snapshot_around (demo_document False) 2) ! 1 =
        \<lparr>sb_tagName = ''UL'', sb_className = ''options'', sb_id = [],
         sb_isVisible = False, sb_hasAriaExpanded = False, sb_ariaExpanded = None\<rparr>"
      "length (siblings (snapshot_around (demo_document True) 2)) = 2"
      "length (siblings (snapshot_around (demo_document False) 2)) = 2"
    by (simp_all add: demo_opened_snapshot demo_closed_snapshot)
  from in_place [rule_format, of 1]
  have "\<lparr>vc_element =
       \<lparr>sb_tagName = ''UL'', sb_className = ''options'', sb_id = [],
        sb_isVisible = False, sb_hasAriaExpanded = False, sb_ariaExpanded = None\<rparr>,
     wasVisible = True, nowVisible = False\<rparr>
     \<in> set (changedVisibility (analyzeDomChanges (snapshot_around (demo_document True) 2)
              (snapshot_around (demo_document False) 2)))"
    unfolding second by simp
  with never_new show ?thesis by blast
qed

text \<open>
  Claim C10 as it stands says that a nearby element that was visible before and is absent
  or invisible after appears in no change list, and that siblings removed after the
  interaction produce no reported change. On the demonstration page, diffing the open
  state against the closed one: the option list was a visible nearby element and is none
  afterwards, yet the second loop meets it among the siblings, reports its hiding in
  \<open>changedVisibility\<close>, and the type is \<open>visibility_toggle\<close>. And when the first of two
  siblings is removed, the remaining one, itself unchanged, moves to position 0, is
  compared with the removed one and is reported as hidden.
\<close>

theorem removals_counterexample:
  "nearbyElements (snapshot_around (demo_document True) 2) =
     [\<lparr>nb_tagName = ''UL'', nb_className = ''options'', nb_id = [], nb_isVisible = True,
       nb_position = \<lparr>pos_top = 135, pos_left = 10, pos_width = 200, pos_height = 90\<rparr>\<rparr>] \<and>
   nearbyElements (snapshot_around (demo_document False) 2) = [] \<and>
   changedVisibility (analyzeDomChanges (snapshot_around (demo_document True) 2)
       (snapshot_around (demo_document False) 2)) =
     [\<lparr>vc_element =
         \<lparr>sb_tagName = ''UL'', sb_className = ''options'', sb_id = [],
          sb_isVisible = False, sb_hasAriaExpanded = False, sb_ariaExpanded = None\<rparr>,
       wasVisible = True, nowVisible = False\<rparr>] \<and>
   interactionType (analyzeDomChanges (snapshot_around (demo_document True) 2)
       (snapshot_around (demo_document False) 2)) = ''visibility_toggle'' \<and>
   changedVisibility
     (analyzeDomChanges (wrapped_before\<lparr>siblings := [toggle_sibling, hint_sibling False]\<rparr>)
        (wrapped_before\<lparr>siblings := [hint_sibling False]\<rparr>)) =
     [\<lparr>vc_element = hint_sibling False, wasVisible = True, nowVisible = False\<rparr>]"
proof -
  have "changedVisibility
     (analyzeDomChanges (wrapped_before\<lparr>siblings := [toggle_sibling, hint_sibling False]\<rparr>)
        (wrapped_before\<lparr>siblings := [hint_sibling False]\<rparr>)) =
     [\<lparr>vc_element = hint_sibling False, wasVisible = True, nowVisible = False\<rparr>]"
    by (simp add: analyzeDomChanges_lists visibility_flips_def toggle_sibling_def
        hint_sibling_def)
  moreover have "nearbyElements (snapshot_around (demo_document True) 2) =
     [\<lparr>nb_tagName = ''UL'', nb_className = ''options'', nb_id = [], nb_isVisible = True,
       nb_position = \<lparr>pos_top = 135, pos_left = 10, pos_width = 200, pos_height = 90\<rparr>\<rparr>]"
    by (simp add: demo_opened_snapshot)
  moreover have "nearbyElements (snapshot_around (demo_document False) 2) = []"
    by (simp add: demo_closed_snapshot)
  ultimately show ?thesis
    by (simp add: demo_closing_diff)
qed

section \<open>The claim about the accessible name\<close>

lemma demo_analyzeAccessibility:
  "analyzeAccessibility demo_page el w =
     (Inr (details_in (demo_document w) el (el \<noteq> 3 \<or> w)), w)"
  by (simp add: analyzeAccessibility_def run_in_page_def await_def return_val_def
      demo_page_def details_in_def)

text \<open>
  Claim C7. The accessible name is the first candidate that is neither absent nor empty
  among the values of \<open>aria-label\<close>, \<open>aria-labelledby\<close>, \<open>alt\<close> and \<open>title\<close> and the trimmed
  rendered text, in that order, and null when there is none. The candidates are read from
  the element's own attributes and text, so the value of \<open>aria-labelledby\<close> is taken as it
  stands: two documents that agree on the element's attributes and text give the same
  name, whatever the element that the value refers to says. The name in the record
  returned by \<open>analyzeAccessibility\<close> is this value, in the document of one of its
  evaluations.
\<close>

theorem accessible_name_order:
  "accessible_name doc el =
     first_non_empty
       [getAttribute doc el ''aria-label'', getAttribute doc el ''aria-labelledby'',
        getAttribute doc el ''alt'', getAttribute doc el ''title'',
        map_option trim (innerText doc el)] \<and>
   (\<forall>doc'. attributes doc' el = attributes doc el \<and> innerText doc' el = innerText doc el \<longrightarrow>
      accessible_name doc' el = accessible_name doc el) \<and>
   (\<forall>w d w'. analyzeAccessibility pg el w = (Inr d, w') \<longrightarrow>
      (\<exists>page_doc w1 w2. evaluate pg el w1 = (Inr page_doc, w2) \<and>
         accessibleName d =
           first_non_empty
             [getAttribute page_doc el ''aria-label'', getAttribute page_doc el ''aria-labelledby'',
              getAttribute page_doc el ''alt'', getAttribute page_doc el ''title'',
              map_option trim (innerText page_doc el)]))"
proof -
  have order: "accessible_name dc n =
     first_non_empty
       [getAttribute dc n ''aria-label'', getAttribute dc n ''aria-labelledby'',
        getAttribute dc n ''alt'', getAttribute dc n ''title'',
        map_option trim (innerText dc n)]" for dc n
    by (simp add: accessible_name_def first_non_empty_def or_else_def split: option.splits)
  have own: "accessible_name doc' el = accessible_name doc el"
    if "attributes doc' el = attributes doc el" and "innerText doc' el = innerText doc el"
    for doc'
    using that by (simp add: accessible_name_def getAttribute_def)
  have run: "\<exists>page_doc w1 w2. evaluate pg el w1 = (Inr page_doc, w2) \<and>
      accessibleName d = accessible_name page_doc el"
    if "analyzeAccessibility pg el w = (Inr d, w')" for w d w'
    using that
    unfolding analyzeAccessibility_def run_in_page_def await_def return_val_def
    by (auto split: prod.splits sum.splits) blast
  show ?thesis
    using order own run by (metis (no_types, lifting))
qed

theorem accessible_name_order_witness:
  "accessible_name (demo_document False) 2 = Some ''journey-label'' \<and>
   accessible_name ((demo_document False)\<lparr>tagName := \<lambda>n. ''SPAN''\<rparr>) 2 =
     accessible_name (demo_document False) 2 \<and>
   (\<exists>page_doc w1 w2. evaluate demo_page 2 w1 = (Inr page_doc, w2) \<and>
      accessibleName (details_in (demo_document False) 2 True) =
        first_non_empty
          [getAttribute page_doc 2 ''aria-label'', getAttribute page_doc 2 ''aria-labelledby'',
           getAttribute page_doc 2 ''alt'', getAttribute page_doc 2 ''title'',
           map_option trim (innerText page_doc 2)])"
proof -
  note inst = accessible_name_order [of "demo_document False" 2 demo_page]
  have first: "accessible_name (demo_document False) 2 = Some ''journey-label''"
    using inst by (simp add: first_non_empty_def getAttribute_def demo_document_def)
  from inst have "\<forall>doc'. attributes doc' 2 = attributes (demo_document False) 2 \<and>
      innerText doc' 2 = innerText (demo_document False) 2 \<longrightarrow>
      accessible_name doc' 2 = accessible_name (demo_document False) 2"
    by blast
  then have "attributes ((demo_document False)\<lparr>tagName := \<lambda>n. ''SPAN''\<rparr>) 2 =
        attributes (demo_document False) 2 \<and>
      innerText ((demo_document False)\<lparr>tagName := \<lambda>n. ''SPAN''\<rparr>) 2 =
        innerText (demo_document False) 2 \<longrightarrow>
      accessible_name ((demo_document False)\<lparr>tagName := \<lambda>n. ''SPAN''\<rparr>) 2 =
        accessible_name (demo_document False) 2"
    by (rule spec)
  then have second: "accessible_name ((demo_document False)\<lparr>tagName := \<lambda>n. ''SPAN''\<rparr>) 2 =
      accessible_name (demo_document False) 2"
    by simp
  have "analyzeAccessibility demo_page 2 False =
      (Inr (details_in (demo_document False) 2 True), False)"
    by (simp add: demo_analyzeAccessibility)
  with inst have third: "\<exists>page_doc w1 w2. evaluate demo_page 2 w1 = (Inr page_doc, w2) \<and>
      accessibleName (details_in (demo_document False) 2 True) =
        first_non_empty
          [getAttribute page_doc 2 ''aria-label'', getAttribute page_doc 2 ''aria-labelledby'',
           getAttribute page_doc 2 ''alt'', getAttribute page_doc 2 ''title'',
           map_option trim (innerText page_doc 2)]"
    by blast
  from first second third show ?thesis by blast
qed


section \<open>Running the asynchronous functions\<close>

lemma await_Inr: "m w = (Inr x, w') \<Longrightarrow> await m k w = k x w'"
  by (simp add: await_def)

lemma await_Inl: "m w = (Inl e, w') \<Longrightarrow> await m k w = (Inl e, w')"
  by (simp add: await_def)

lemma return_val_apply: "return_val x w = (Inr x, w)"
  by (simp add: return_val_def)

lemma await_log_described:
  "await (log_described pg desc line) k w = k () (logged pg desc line w)"
  by (simp add: await_def log_described_def)

lemma captureNearbyElements_Inr:
  "evaluate pg el w = (Inr doc, w') \<Longrightarrow>
   captureNearbyElements pg el w = (Inr (snapshot_around doc el), w')"
  by (simp add: captureNearbyElements_def run_in_page_def await_def return_val_def)

lemma run_in_page_Inr:
  "evaluate pg el w = (Inr doc, w') \<Longrightarrow> run_in_page pg el f w = (Inr (f doc el), w')"
  by (simp add: run_in_page_def await_def return_val_def)

lemma run_in_page_Inl:
  "evaluate pg el w = (Inl e, w') \<Longrightarrow> run_in_page pg el f w = (Inl e, w')"
  by (simp add: run_in_page_def await_def)

subsection \<open>The executor\<close>

lemma calculateAccessibilityScore_Some:
  "\<exists>n. calculateAccessibilityScore change ok (Some report) = Inr n"
  by (simp add: calculateAccessibilityScore_def Let_def)

lemma testInteraction_caught:
  "interaction_attempt pg element interaction s0 w = (Inl e, w') \<Longrightarrow>
   testInteractionWithDomAnalysis pg element interaction s0 w =
     (Inr \<lparr>interactionResult =
             \<lparr>ir_type = it_type interaction, success = False, error = Some (message e),
              interactionTime = date_now pg w' - date_now pg w, stateChange = None,
              accessibilityScore = 0\<rparr>,
           domChanges = None\<rparr>, w')"
  by (simp add: testInteractionWithDomAnalysis_def calculateAccessibilityScore_def)

lemma testInteraction_completed:
  "interaction_attempt pg element interaction s0 w = (Inr (report, change), w') \<Longrightarrow>
   \<exists>n. calculateAccessibilityScore (Some change) True (Some report) = Inr n \<and>
     testInteractionWithDomAnalysis pg element interaction s0 w =
     (Inr \<lparr>interactionResult =
             \<lparr>ir_type = it_type interaction, success = True, error = None,
              interactionTime = date_now pg w' - date_now pg w, stateChange = Some change,
              accessibilityScore = n\<rparr>,
           domChanges = Some report\<rparr>, w')"
  using calculateAccessibilityScore_Some [of "Some change" True report]
  by (auto simp: testInteractionWithDomAnalysis_def)

lemma testInteraction_returns:
  "\<exists>d w'. testInteractionWithDomAnalysis pg element interaction s0 w = (Inr d, w')"
proof (cases "interaction_attempt pg element interaction s0 w")
  case (Pair r w')
  show ?thesis
  proof (cases r)
    case (Inl e)
    with Pair have "interaction_attempt pg element interaction s0 w = (Inl e, w')"
      by simp
    from testInteraction_caught [OF this] show ?thesis
      by simp
  next
    case (Inr p)
    with Pair have "interaction_attempt pg element interaction s0 w = (Inr (fst p, snd p), w')"
      by simp
    from testInteraction_completed [OF this] show ?thesis
      by auto
  qed
qed

lemma attempt_completed:
  "run_in_page pg element read_state w = (Inr st0, w1) \<Longrightarrow>
   dispatch pg element interaction w1 = (Inr u, w2) \<Longrightarrow>
   waitForTimeout pg 300 w2 = (Inr u', w3) \<Longrightarrow>
   evaluate pg element w3 = (Inr doc1, w4) \<Longrightarrow>
   run_in_page pg element read_state w4 = (Inr st1, w5) \<Longrightarrow>
   interaction_attempt pg element interaction s0 w =
     (Inr (analyzeDomChanges s0 (snapshot_around doc1 element),
           \<lparr>focusChanged = (focused st0 \<noteq> focused st1),
            ariaExpandedChanged = (st_ariaExpanded st0 \<noteq> st_ariaExpanded st1),
            ariaPressedChanged = (st_ariaPressed st0 \<noteq> st_ariaPressed st1),
            ariaSelectedChanged = (st_ariaSelected st0 \<noteq> st_ariaSelected st1)\<rparr>), w5)"
  by (simp add: interaction_attempt_def await_Inr captureNearbyElements_Inr return_val_apply)

text \<open>
  Claim C3. \<open>testInteractionWithDomAnalysis\<close> always returns a result and never an
  exception. When the body of its \<open>try\<close> block raises, the result reports the failure:
  \<open>success\<close> is false, \<open>error\<close> is the message of the exception, \<open>stateChange\<close> is null,
  the score is 0 and \<open>domChanges\<close> is null. The body raises whenever the read of the
  state before the interaction raises, whenever the dispatch raises, and whenever the read
  of the state after it raises (and likewise for the wait and the snapshot in between).
\<close>

theorem interaction_exceptions_are_caught:
  "(\<exists>d w'. testInteractionWithDomAnalysis pg element interaction s0 w = (Inr d, w')) \<and>
   (\<forall>e w'. interaction_attempt pg element interaction s0 w = (Inl e, w') \<longrightarrow>
      (\<exists>d. testInteractionWithDomAnalysis pg element interaction s0 w = (Inr d, w') \<and>
           reports_failure d (message e))) \<and>
   (\<forall>e w1. run_in_page pg element read_state w = (Inl e, w1) \<longrightarrow>
      interaction_attempt pg element interaction s0 w = (Inl e, w1)) \<and>
   (\<forall>st0 w1 e w2.
      run_in_page pg element read_state w = (Inr st0, w1) \<and>
      dispatch pg element interaction w1 = (Inl e, w2) \<longrightarrow>
      interaction_attempt pg element interaction s0 w = (Inl e, w2)) \<and>
   (\<forall>st0 w1 u w2 e w3.
      run_in_page pg element read_state w = (Inr st0, w1) \<and>
      dispatch pg element interaction w1 = (Inr u, w2) \<and>
      waitForTimeout pg 300 w2 = (Inl e, w3) \<longrightarrow>
      interaction_attempt pg element interaction s0 w = (Inl e, w3)) \<and>
   (\<forall>st0 w1 u w2 u' w3 e w4.
      run_in_page pg element read_state w = (Inr st0, w1) \<and>
      dispatch pg element interaction w1 = (Inr u, w2) \<and>
      waitForTimeout pg 300 w2 = (Inr u', w3) \<and>
      captureNearbyElements pg element w3 = (Inl e, w4) \<longrightarrow>
      interaction_attempt pg element interaction s0 w = (Inl e, w4)) \<and>
   (\<forall>st0 w1 u w2 u' w3 s1 w4 e w5.
      run_in_page pg element read_state w = (Inr st0, w1) \<and>
      dispatch pg element interaction w1 = (Inr u, w2) \<and>
      waitForTimeout pg 300 w2 = (Inr u', w3) \<and>
      captureNearbyElements pg element w3 = (Inr s1, w4) \<and>
      run_in_page pg element read_state w4 = (Inl e, w5) \<longrightarrow>
      interaction_attempt pg element interaction s0 w = (Inl e, w5))"
proof -
  have returns: "\<exists>d w'. testInteractionWithDomAnalysis pg element interaction s0 w = (Inr d, w')"
    by (rule testInteraction_returns)
  have caught: "\<forall>e w'. interaction_attempt pg element interaction s0 w = (Inl e, w') \<longrightarrow>
      (\<exists>d. testInteractionWithDomAnalysis pg element interaction s0 w = (Inr d, w') \<and>
           reports_failure d (message e))"
    by (simp add: testInteraction_caught reports_failure_def)
  have before: "\<forall>e w1. run_in_page pg element read_state w = (Inl e, w1) \<longrightarrow>
      interaction_attempt pg element interaction s0 w = (Inl e, w1)"
    by (simp add: interaction_attempt_def await_Inl)
  have during: "\<forall>st0 w1 e w2.
      run_in_page pg element read_state w = (Inr st0, w1) \<and>
      dispatch pg element interaction w1 = (Inl e, w2) \<longrightarrow>
      interaction_attempt pg element interaction s0 w = (Inl e, w2)"
    by (simp add: interaction_attempt_def await_Inr await_Inl)
  have waiting: "\<forall>st0 w1 u w2 e w3.
      run_in_page pg element read_state w = (Inr st0, w1) \<and>
      dispatch pg element interaction w1 = (Inr u, w2) \<and>
      waitForTimeout pg 300 w2 = (Inl e, w3) \<longrightarrow>
      interaction_attempt pg element interaction s0 w = (Inl e, w3)"
    by (simp add: interaction_attempt_def await_Inr await_Inl)
  have snapshot: "\<forall>st0 w1 u w2 u' w3 e w4.
      run_in_page pg element read_state w = (Inr st0, w1) \<and>
      dispatch pg element interaction w1 = (Inr u, w2) \<and>
      waitForTimeout pg 300 w2 = (Inr u', w3) \<and>
      captureNearbyElements pg element w3 = (Inl e, w4) \<longrightarrow>
      interaction_attempt pg element interaction s0 w = (Inl e, w4)"
    by (simp add: interaction_attempt_def await_Inr await_Inl)
  have after: "\<forall>st0 w1 u w2 u' w3 s1 w4 e w5.
      run_in_page pg element read_state w = (Inr st0, w1) \<and>
      dispatch pg element interaction w1 = (Inr u, w2) \<and>
      waitForTimeout pg 300 w2 = (Inr u', w3) \<and>
      captureNearbyElements pg element w3 = (Inr s1, w4) \<and>
      run_in_page pg element read_state w4 = (Inl e, w5) \<longrightarrow>
      interaction_attempt pg element interaction s0 w = (Inl e, w5)"
    by (simp add: interaction_attempt_def await_Inr await_Inl)
  from returns caught before during waiting snapshot after show ?thesis
    by (intro conjI)
qed

lemma demo_read_state:
  "run_in_page demo_page el read_state w = (Inr (read_state (demo_document w) el), w)"
  by (simp add: run_in_page_def await_def return_val_def demo_page_def)

text \<open>
  On the demonstration page a hover on the button raises during the dispatch; the
  executor returns the failure as a result.
\<close>

theorem interaction_exceptions_are_caught_witness:
  "dispatch demo_page 2 hover_test False =
     (Inl (Error ''Element is not attached to the DOM''), False) \<and>
   (\<exists>d. testInteractionWithDomAnalysis demo_page 2 hover_test
          (snapshot_around (demo_document False) 1) False = (Inr d, False) \<and>
        reports_failure d ''Element is not attached to the DOM'')"
proof -
  note inst = interaction_exceptions_are_caught [of demo_page 2 hover_test
      "snapshot_around (demo_document False) 1" False]
  have pre: "run_in_page demo_page 2 read_state False =
      (Inr (read_state (demo_document False) 2), False)"
    by (rule demo_read_state)
  have raised: "dispatch demo_page 2 hover_test False =
      (Inl (Error ''Element is not attached to the DOM''), False)"
    by (simp add: dispatch_def hover_test_def demo_page_def)
  from inst have during: "\<forall>st0 w1 e w2.
      run_in_page demo_page 2 read_state False = (Inr st0, w1) \<and>
      dispatch demo_page 2 hover_test w1 = (Inl e, w2) \<longrightarrow>
      interaction_attempt demo_page 2 hover_test (snapshot_around (demo_document False) 1) False =
        (Inl e, w2)"
    by (elim conjE)
  from inst have caught: "\<forall>e w'.
      interaction_attempt demo_page 2 hover_test (snapshot_around (demo_document False) 1) False =
        (Inl e, w') \<longrightarrow>
      (\<exists>d. testInteractionWithDomAnalysis demo_page 2 hover_test
            (snapshot_around (demo_document False) 1) False = (Inr d, w') \<and>
           reports_failure d (message e))"
    by (elim conjE)
  from during [rule_format, OF conjI [OF pre raised]]
  have "interaction_attempt demo_page 2 hover_test
      (snapshot_around (demo_document False) 1) False =
      (Inl (Error ''Element is not attached to the DOM''), False)" .
  from caught [rule_format, OF this]
  have "\<exists>d. testInteractionWithDomAnalysis demo_page 2 hover_test
          (snapshot_around (demo_document False) 1) False = (Inr d, False) \<and>
        reports_failure d (message (Error ''Element is not attached to the DOM''))" .
  with raised show ?thesis by simp
qed

section \<open>The claims about the orchestrator\<close>

text \<open>
  Claim C2. When the container selector matches nothing (\<open>page.$\<close> gives null),
  \<open>validateElement\<close> returns normally, with \<open>found\<close> and \<open>childFound\<close> false and
  \<open>details\<close>, \<open>childDetails\<close>, \<open>interactionResult\<close> and \<open>domChanges\<close> null. Nothing but the
  lookup and the log line has touched the page.
\<close>

theorem container_not_found:
  assumes "query pg selector w0 = (Inr None, w1)"
  shows "validateElement pg selector desc childSelector interactionTest w0 =
     (Inr \<lparr>found = False, details = None, childFound = False, childDetails = None,
           vr_interactionResult = None, vr_domChanges = None,
           executionTime =
             date_now pg (logged pg desc ContainerNotFound w1) - date_now pg w0\<rparr>,
      logged pg desc ContainerNotFound w1)"
  using assms
  by (simp add: validateElement_def await_Inr await_log_described return_val_apply)

theorem container_not_found_witness:
  "query demo_page ''#nothing'' False = (Inr None, False) \<and>
   validateElement demo_page ''#nothing'' (Some ''Promo code'') (Some ''button'')
     (Some click_test) False =
     (Inr \<lparr>found = False, details = None, childFound = False, childDetails = None,
           vr_interactionResult = None, vr_domChanges = None, executionTime = 0\<rparr>, False)"
proof -
  have missing: "query demo_page ''#nothing'' False = (Inr None, False)"
    by (simp add: demo_page_def)
  from container_not_found [OF missing, of "Some ''Promo code''" "Some ''button''"
      "Some click_test"] missing
  show ?thesis
    by (simp add: logged_def demo_page_def)
qed

lemma probe_found_prefix:
  assumes "analyzeAccessibility pg c w1 = (Inr d, w2)"
    and "captureNearbyElements pg c (logged pg desc ContainerFound w2) = (Inr s0, w3)"
  shows "probe_found pg c desc childSelector interactionTest w1 =
     (case supplied childSelector of
        Some sel \<Rightarrow>
          await (query_within pg c sel) (\<lambda>childElement.
            case childElement of
              Some child \<Rightarrow>
                await (analyzeAccessibility pg child) (\<lambda>childDetails.
                await (log_described pg desc ChildFound) (\<lambda>_.
                  case interactionTest of
                    Some interaction \<Rightarrow>
                      await (testInteractionWithDomAnalysis pg child interaction s0)
                        (\<lambda>interactionData.
                           return_val (Some d, True, Some childDetails,
                             Some (interactionResult interactionData),
                             domChanges interactionData))
                  | None \<Rightarrow> return_val (Some d, True, Some childDetails, None, None)))
            | None \<Rightarrow>
                await (log_described pg desc ChildNotFound) (\<lambda>_.
                  return_val (Some d, False, None, None, None)))
      | None \<Rightarrow>
          (case interactionTest of
             Some interaction \<Rightarrow>
               await (testInteractionWithDomAnalysis pg c interaction s0)
                 (\<lambda>interactionData.
                    return_val (Some d, False, None,
                      Some (interactionResult interactionData), domChanges interactionData))
           | None \<Rightarrow> return_val (Some d, False, None, None, None))) w3"
  using assms
  by (simp add: probe_found_def await_Inr await_log_described)

lemma validateElement_found:
  assumes "query pg selector w0 = (Inr (Some c), w1)"
    and "probe_found pg c desc childSelector interactionTest w1 =
           (Inr (det, cf, cdet, ir, dc), w)"
  shows "validateElement pg selector desc childSelector interactionTest w0 =
     (Inr \<lparr>found = True, details = det, childFound = cf, childDetails = cdet,
           vr_interactionResult = ir, vr_domChanges = dc,
           executionTime = date_now pg w - date_now pg w0\<rparr>, w)"
  using assms
  by (simp add: validateElement_def await_Inr)

text \<open>
  Claim C8. With the container found, analysed and snapshotted: when a child selector is
  supplied, the child is found and an interaction is requested, the interaction result
  and the diff of the probe are those of \<open>testInteractionWithDomAnalysis\<close> run on the
  child handle; when no child selector is supplied and an interaction is requested, they
  are those of \<open>testInteractionWithDomAnalysis\<close> run on the container handle; when a child
  selector is supplied and the child is not found, both are null and the probe ends in
  the world the lookup and its log line left, whatever interaction was requested.
\<close>

theorem interaction_target:
  assumes located: "query pg selector w0 = (Inr (Some c), w1)"
    and analysed: "analyzeAccessibility pg c w1 = (Inr d, w2)"
    and baseline: "captureNearbyElements pg c (logged pg desc ContainerFound w2) = (Inr s0, w3)"
  shows
    "(\<forall>sel ch w4 cd w5 it.
        supplied childSelector = Some sel \<and>
        query_within pg c sel w3 = (Inr (Some ch), w4) \<and>
        analyzeAccessibility pg ch w4 = (Inr cd, w5) \<and>
        interactionTest = Some it \<longrightarrow>
        (\<exists>data w6.
           testInteractionWithDomAnalysis pg ch it s0 (logged pg desc ChildFound w5) =
             (Inr data, w6) \<and>
           validateElement pg selector desc childSelector interactionTest w0 =
             (Inr \<lparr>found = True, details = Some d, childFound = True, childDetails = Some cd,
                   vr_interactionResult = Some (interactionResult data),
                   vr_domChanges = domChanges data,
                   executionTime = date_now pg w6 - date_now pg w0\<rparr>, w6))) \<and>
     (\<forall>it.
        supplied childSelector = None \<and> interactionTest = Some it \<longrightarrow>
        (\<exists>data w6.
           testInteractionWithDomAnalysis pg c it s0 w3 = (Inr data, w6) \<and>
           validateElement pg selector desc childSelector interactionTest w0 =
             (Inr \<lparr>found = True, details = Some d, childFound = False, childDetails = None,
                   vr_interactionResult = Some (interactionResult data),
                   vr_domChanges = domChanges data,
                   executionTime = date_now pg w6 - date_now pg w0\<rparr>, w6))) \<and>
     (\<forall>sel w4.
        supplied childSelector = Some sel \<and>
        query_within pg c sel w3 = (Inr None, w4) \<longrightarrow>
        validateElement pg selector desc childSelector interactionTest w0 =
          (Inr \<lparr>found = True, details = Some d, childFound = False, childDetails = None,
                vr_interactionResult = None, vr_domChanges = None,
                executionTime =
                  date_now pg (logged pg desc ChildNotFound w4) - date_now pg w0\<rparr>,
           logged pg desc ChildNotFound w4))"
proof (intro conjI allI impI)
  fix sel ch w4 cd w5 it
  assume h: "supplied childSelector = Some sel \<and>
        query_within pg c sel w3 = (Inr (Some ch), w4) \<and>
        analyzeAccessibility pg ch w4 = (Inr cd, w5) \<and>
        interactionTest = Some it"
  obtain data w6 where run:
    "testInteractionWithDomAnalysis pg ch it s0 (logged pg desc ChildFound w5) = (Inr data, w6)"
    using testInteraction_returns [of pg ch it s0 "logged pg desc ChildFound w5"] by auto
  have "probe_found pg c desc childSelector interactionTest w1 =
      (Inr (Some d, True, Some cd, Some (interactionResult data), domChanges data), w6)"
    using h run
    by (simp add: probe_found_prefix [OF analysed baseline] await_Inr await_log_described
        return_val_apply)
  from validateElement_found [OF located this] run
  show "\<exists>data w6.
           testInteractionWithDomAnalysis pg ch it s0 (logged pg desc ChildFound w5) =
             (Inr data, w6) \<and>
           validateElement pg selector desc childSelector interactionTest w0 =
             (Inr \<lparr>found = True, details = Some d, childFound = True, childDetails = Some cd,
                   vr_interactionResult = Some (interactionResult data),
                   vr_domChanges = domChanges data,
                   executionTime = date_now pg w6 - date_now pg w0\<rparr>, w6)"
    by blast
next
  fix it
  assume h: "supplied childSelector = None \<and> interactionTest = Some it"
  obtain data w6 where run:
    "testInteractionWithDomAnalysis pg c it s0 w3 = (Inr data, w6)"
    using testInteraction_returns [of pg c it s0 w3] by auto
  have "probe_found pg c desc childSelector interactionTest w1 =
      (Inr (Some d, False, None, Some (interactionResult data), domChanges data), w6)"
    using h run
    by (simp add: probe_found_prefix [OF analysed baseline] await_Inr return_val_apply)
  from validateElement_found [OF located this] run
  show "\<exists>data w6.
           testInteractionWithDomAnalysis pg c it s0 w3 = (Inr data, w6) \<and>
           validateElement pg selector desc childSelector interactionTest w0 =
             (Inr \<lparr>found = True, details = Some d, childFound = False, childDetails = None,
                   vr_interactionResult = Some (interactionResult data),
                   vr_domChanges = domChanges data,
                   executionTime = date_now pg w6 - date_now pg w0\<rparr>, w6)"
    by blast
next
  fix sel w4
  assume h: "supplied childSelector = Some sel \<and> query_within pg c sel w3 = (Inr None, w4)"
  have "probe_found pg c desc childSelector interactionTest w1 =
      (Inr (Some d, False, None, None, None), logged pg desc ChildNotFound w4)"
    using h
    by (simp add: probe_found_prefix [OF analysed baseline] await_Inr await_log_described
        return_val_apply)
  from validateElement_found [OF located this]
  show "validateElement pg selector desc childSelector interactionTest w0 =
          (Inr \<lparr>found = True, details = Some d, childFound = False, childDetails = None,
                vr_interactionResult = None, vr_domChanges = None,
                executionTime =
                  date_now pg (logged pg desc ChildNotFound w4) - date_now pg w0\<rparr>,
           logged pg desc ChildNotFound w4)" .
qed

lemma demo_located: "query demo_page ''#journey'' False = (Inr (Some 1), False)"
  by (simp add: demo_page_def)

lemma demo_logged: "logged demo_page desc line w = w"
  by (simp add: logged_def demo_page_def split: option.splits)

lemma demo_baseline:
  "captureNearbyElements demo_page 1 (logged demo_page desc ContainerFound False) =
     (Inr (snapshot_around (demo_document False) 1), False)"
  unfolding demo_logged
  by (rule captureNearbyElements_Inr) (simp add: demo_page_def)

text \<open>
  On the demonstration page: with the child selector \<open>button\<close> the click runs on the
  button (node 2); with no child selector it runs on the container (node 1); with a child
  selector that matches nothing there is no interaction and the page stays closed.
\<close>

theorem interaction_target_witness:
  "(\<exists>data w6.
      testInteractionWithDomAnalysis demo_page 2 click_test
        (snapshot_around (demo_document False) 1)
        (logged demo_page (Some ''Journey type'') ChildFound False) = (Inr data, w6) \<and>
      validateElement demo_page ''#journey'' (Some ''Journey type'') (Some ''button'')
        (Some click_test) False =
        (Inr \<lparr>found = True, details = Some (details_in (demo_document False) 1 True),
              childFound = True, childDetails = Some (details_in (demo_document False) 2 True),
              vr_interactionResult = Some (interactionResult data),
              vr_domChanges = domChanges data,
              executionTime = date_now demo_page w6 - date_now demo_page False\<rparr>, w6)) \<and>
   (\<exists>data w6.
      testInteractionWithDomAnalysis demo_page 1 click_test
        (snapshot_around (demo_document False) 1) False = (Inr data, w6) \<and>
      validateElement demo_page ''#journey'' (Some ''Journey type'') None
        (Some click_test) False =
        (Inr \<lparr>found = True, details = Some (details_in (demo_document False) 1 True),
              childFound = False, childDetails = None,
              vr_interactionResult = Some (interactionResult data),
              vr_domChanges = domChanges data,
              executionTime = date_now demo_page w6 - date_now demo_page False\<rparr>, w6)) \<and>
   validateElement demo_page ''#journey'' (Some ''Journey type'') (Some ''input'')
     (Some click_test) False =
     (Inr \<lparr>found = True, details = Some (details_in (demo_document False) 1 True),
           childFound = False, childDetails = None,
           vr_interactionResult = None, vr_domChanges = None, executionTime = 0\<rparr>, False)"
proof -
  have analysed: "analyzeAccessibility demo_page 1 False =
      (Inr (details_in (demo_document False) 1 True), False)"
    unfolding demo_analyzeAccessibility by simp
  note on_child = interaction_target [where childSelector = "Some ''button''"
      and interactionTest = "Some click_test" and desc = "Some ''Journey type''",
      OF demo_located analysed demo_baseline]
  note on_container = interaction_target [where childSelector = None
      and interactionTest = "Some click_test" and desc = "Some ''Journey type''",
      OF demo_located analysed demo_baseline]
  note no_child = interaction_target [where childSelector = "Some ''input''"
      and interactionTest = "Some click_test" and desc = "Some ''Journey type''",
      OF demo_located analysed demo_baseline]
  have child_selector: "supplied (Some ''button'') = Some ''button''"
    by (simp add: supplied_def)
  have child_located: "query_within demo_page 1 ''button'' False = (Inr (Some 2), False)"
    by (simp add: demo_page_def)
  have child_analysed: "analyzeAccessibility demo_page 2 False =
      (Inr (details_in (demo_document False) 2 True), False)"
    unfolding demo_analyzeAccessibility by simp
  have first: "\<exists>data w6.
      testInteractionWithDomAnalysis demo_page 2 click_test
        (snapshot_around (demo_document False) 1)
        (logged demo_page (Some ''Journey type'') ChildFound False) = (Inr data, w6) \<and>
      validateElement demo_page ''#journey'' (Some ''Journey type'') (Some ''button'')
        (Some click_test) False =
        (Inr \<lparr>found = True, details = Some (details_in (demo_document False) 1 True),
              childFound = True, childDetails = Some (details_in (demo_document False) 2 True),
              vr_interactionResult = Some (interactionResult data),
              vr_domChanges = domChanges data,
              executionTime = date_now demo_page w6 - date_now demo_page False\<rparr>, w6)"
    by (rule on_child [THEN conjunct1, rule_format,
          of "''button''" 2 False "details_in (demo_document False) 2 True" False click_test])
      (intro conjI child_selector child_located child_analysed refl)
  have second: "\<exists>data w6.
      testInteractionWithDomAnalysis demo_page 1 click_test
        (snapshot_around (demo_document False) 1) False = (Inr data, w6) \<and>
      validateElement demo_page ''#journey'' (Some ''Journey type'') None
        (Some click_test) False =
        (Inr \<lparr>found = True, details = Some (details_in (demo_document False) 1 True),
              childFound = False, childDetails = None,
              vr_interactionResult = Some (interactionResult data),
              vr_domChanges = domChanges data,
              executionTime = date_now demo_page w6 - date_now demo_page False\<rparr>, w6)"
    by (rule on_container [THEN conjunct2, THEN conjunct1, rule_format, of click_test])
      (simp add: supplied_def)
  have "validateElement demo_page ''#journey'' (Some ''Journey type'') (Some ''input'')
     (Some click_test) False =
     (Inr \<lparr>found = True, details = Some (details_in (demo_document False) 1 True),
           childFound = False, childDetails = None,
           vr_interactionResult = None, vr_domChanges = None,
           executionTime =
             date_now demo_page (logged demo_page (Some ''Journey type'') ChildNotFound False)
               - date_now demo_page False\<rparr>,
      logged demo_page (Some ''Journey type'') ChildNotFound False)"
    by (rule no_child [THEN conjunct2, THEN conjunct2, rule_format, of "''input''" False])
      (simp add: supplied_def demo_page_def)
  then have third: "validateElement demo_page ''#journey'' (Some ''Journey type'')
     (Some ''input'') (Some click_test) False =
     (Inr \<lparr>found = True, details = Some (details_in (demo_document False) 1 True),
           childFound = False, childDetails = None,
           vr_interactionResult = None, vr_domChanges = None, executionTime = 0\<rparr>, False)"
    by (simp add: demo_logged)
  from first second third show ?thesis by (intro conjI)
qed

text \<open>
  Claim C9. With a child selector and an interaction both supplied and the child found,
  the diff of the probe compares a snapshot taken around the container with a snapshot
  taken around the child. The first is taken in the document as it is right after the
  container has been analysed, before the child is looked up; the second in the document
  as it is after the interaction and the wait. Each snapshot carries the bounding box of
  the element it was taken around.
\<close>

theorem baseline_snapshot_is_around_container:
  assumes located: "query pg selector w0 = (Inr (Some c), w1)"
    and analysed: "analyzeAccessibility pg c w1 = (Inr d, w2)"
    and baseline: "evaluate pg c (logged pg desc ContainerFound w2) = (Inr doc0, w3)"
    and child_selector: "supplied childSelector = Some sel"
    and child_located: "query_within pg c sel w3 = (Inr (Some ch), w4)"
    and child_analysed: "analyzeAccessibility pg ch w4 = (Inr cd, w5)"
    and requested: "interactionTest = Some it"
    and state_before: "run_in_page pg ch read_state (logged pg desc ChildFound w5) = (Inr st0, w6)"
    and dispatched: "dispatch pg ch it w6 = (Inr u, w7)"
    and waited: "waitForTimeout pg 300 w7 = (Inr u', w8)"
    and afterwards: "evaluate pg ch w8 = (Inr doc1, w9)"
    and state_after: "run_in_page pg ch read_state w9 = (Inr st1, w10)"
  shows "\<exists>r. validateElement pg selector desc childSelector interactionTest w0 = (Inr r, w10) \<and>
      vr_domChanges r =
        Some (analyzeDomChanges (snapshot_around doc0 c) (snapshot_around doc1 ch)) \<and>
      elementPosition (snapshot_around doc0 c) =
        \<lparr>ep_top = rect_top (getBoundingClientRect doc0 c),
         ep_left = rect_left (getBoundingClientRect doc0 c),
         ep_bottom = rect_bottom (getBoundingClientRect doc0 c),
         ep_right = rect_right (getBoundingClientRect doc0 c)\<rparr> \<and>
      elementPosition (snapshot_around doc1 ch) =
        \<lparr>ep_top = rect_top (getBoundingClientRect doc1 ch),
         ep_left = rect_left (getBoundingClientRect doc1 ch),
         ep_bottom = rect_bottom (getBoundingClientRect doc1 ch),
         ep_right = rect_right (getBoundingClientRect doc1 ch)\<rparr>"
proof -
  let ?s0 = "snapshot_around doc0 c"
  have snap: "captureNearbyElements pg c (logged pg desc ContainerFound w2) = (Inr ?s0, w3)"
    using baseline by (rule captureNearbyElements_Inr)
  from attempt_completed [OF state_before dispatched waited afterwards state_after, of ?s0]
  obtain change where attempt:
    "interaction_attempt pg ch it ?s0 (logged pg desc ChildFound w5) =
       (Inr (analyzeDomChanges ?s0 (snapshot_around doc1 ch), change), w10)"
    by blast
  from testInteraction_completed [OF attempt]
  obtain res where run:
    "testInteractionWithDomAnalysis pg ch it ?s0 (logged pg desc ChildFound w5) =
       (Inr \<lparr>interactionResult = res,
             domChanges = Some (analyzeDomChanges ?s0 (snapshot_around doc1 ch))\<rparr>, w10)"
    by blast
  have "probe_found pg c desc childSelector interactionTest w1 =
      (Inr (Some d, True, Some cd, Some res,
            Some (analyzeDomChanges ?s0 (snapshot_around doc1 ch))), w10)"
    using child_selector child_located child_analysed requested run
    by (simp add: probe_found_prefix [OF analysed snap] await_Inr await_log_described
        return_val_apply)
  from validateElement_found [OF located this]
  show ?thesis
    by (simp add: snapshot_around_def Let_def)
qed

lemma demo_container_vs_child_diff:
  "analyzeDomChanges (snapshot_around (demo_document False) 1)
     (snapshot_around (demo_document True) 2) =
     \<lparr>newElements =
        [\<lparr>nb_tagName = ''UL'', nb_className = ''options'', nb_id = [], nb_isVisible = True,
          nb_position = \<lparr>pos_top = 135, pos_left = 10, pos_width = 200, pos_height = 90\<rparr>\<rparr>],
      changedVisibility = [],
      expandedElements =
        [\<lparr>xc_element =
            \<lparr>sb_tagName = ''BUTTON'', sb_className = ''toggle'', sb_id = [],
             sb_isVisible = True, sb_hasAriaExpanded = True, sb_ariaExpanded = Some ''true''\<rparr>,
          wasExpanded = None, nowExpanded = Some ''true''\<rparr>],
      interactionType = ''dropdown'',
      description = ''Opened dropdown with 1 new elements''\<rparr>"
  unfolding demo_container_snapshot demo_opened_snapshot
  by (simp add: analyzeDomChanges_unfold appeared_def visibility_flips_def
      expansion_changes_def classify_def string_of_nat.simps string_of_digit_def)

text \<open>
  On the demonstration page the click on the button is diffed against the snapshot of the
  container: the report pairs the container, first among its own siblings, with the
  button, first among the button's siblings, and so reports an aria-expanded change from
  null (the container has no such attribute) to \<open>true\<close>.
\<close>

theorem baseline_snapshot_is_around_container_witness:
  "\<exists>r. validateElement demo_page ''#journey'' (Some ''Journey type'') (Some ''button'')
          (Some click_test) False = (Inr r, True) \<and>
        vr_domChanges r =
          Some (analyzeDomChanges (snapshot_around (demo_document False) 1)
                  (snapshot_around (demo_document True) 2)) \<and>
        map_option expandedElements (vr_domChanges r) =
          Some [\<lparr>xc_element =
                   \<lparr>sb_tagName = ''BUTTON'', sb_className = ''toggle'', sb_id = [],
                    sb_isVisible = True, sb_hasAriaExpanded = True,
                    sb_ariaExpanded = Some ''true''\<rparr>,
                 wasExpanded = None, nowExpanded = Some ''true''\<rparr>]"
proof -
  have analysed: "analyzeAccessibility demo_page 1 False =
      (Inr (details_in (demo_document False) 1 True), False)"
    unfolding demo_analyzeAccessibility by simp
  have baseline: "evaluate demo_page 1 (logged demo_page (Some ''Journey type'') ContainerFound False) =
      (Inr (demo_document False), False)"
    unfolding demo_logged by (simp add: demo_page_def)
  have child_selector: "supplied (Some ''button'') = Some ''button''"
    by (simp add: supplied_def)
  have child_located: "query_within demo_page 1 ''button'' False = (Inr (Some 2), False)"
    by (simp add: demo_page_def)
  have child_analysed: "analyzeAccessibility demo_page 2 False =
      (Inr (details_in (demo_document False) 2 True), False)"
    unfolding demo_analyzeAccessibility by simp
  have state_before: "run_in_page demo_page 2 read_state
      (logged demo_page (Some ''Journey type'') ChildFound False) =
      (Inr (read_state (demo_document False) 2), False)"
    by (simp add: demo_logged demo_read_state)
  have dispatched: "dispatch demo_page 2 click_test False = (Inr (), True)"
    by (simp add: dispatch_def click_test_def demo_page_def)
  have waited: "waitForTimeout demo_page 300 True = (Inr (), True)"
    by (simp add: demo_page_def)
  have afterwards: "evaluate demo_page 2 True = (Inr (demo_document True), True)"
    by (simp add: demo_page_def)
  have state_after: "run_in_page demo_page 2 read_state True =
      (Inr (read_state (demo_document True) 2), True)"
    by (rule demo_read_state)
  from baseline_snapshot_is_around_container [OF demo_located analysed baseline child_selector
      child_located child_analysed refl state_before dispatched waited afterwards state_after]
  obtain r where probe:
    "validateElement demo_page ''#journey'' (Some ''Journey type'') (Some ''button'')
       (Some click_test) False = (Inr r, True)"
    and diff: "vr_domChanges r =
       Some (analyzeDomChanges (snapshot_around (demo_document False) 1)
               (snapshot_around (demo_document True) 2))"
    by blast
  have "map_option expandedElements (vr_domChanges r) =
      Some [\<lparr>xc_element =
               \<lparr>sb_tagName = ''BUTTON'', sb_className = ''toggle'', sb_id = [],
                sb_isVisible = True, sb_hasAriaExpanded = True,
                sb_ariaExpanded = Some ''true''\<rparr>,
             wasExpanded = None, nowExpanded = Some ''true''\<rparr>]"
    unfolding diff demo_container_vs_child_diff by simp
  with probe diff show ?thesis by blast
qed


end
